theory Spec2Isabelle
  imports Main "HOL-Library.Sublist" "HOL-Library.Char_ord" "HOL-Library.List_Lexorder"
begin

section \<open>Strings\<close>

text \<open>
  A JavaScript string is a sequence of UTF-16 code units. The model uses \<^typ>\<open>string\<close> and
  reads a \<^typ>\<open>char\<close> as the code unit of the same number, so it covers the strings whose
  code units are below 256 (ASCII and Latin-1). File contents are the strings that
  \<^verbatim>\<open>fs.readFileSync(path, 'utf-8')\<close> returns, that is, already decoded.
\<close>

definition is_space :: "char \<Rightarrow> bool" where
  \<comment> \<open>\<^verbatim>\<open>\s\<close> and the characters \<^verbatim>\<open>trim()\<close> strips: TAB, LF, VT, FF, CR, SPACE, NBSP\<close>
  "is_space c = (of_char c \<in> {9, 10, 11, 12, 13, 32, 160 :: nat})"

definition is_digit :: "char \<Rightarrow> bool" where
  \<comment> \<open>\<^verbatim>\<open>\d\<close>\<close>
  "is_digit c = (48 \<le> (of_char c :: nat) \<and> (of_char c :: nat) \<le> 57)"

definition lower_char :: "char \<Rightarrow> char" where
  \<comment> \<open>\<^verbatim>\<open>toLowerCase\<close> on one code unit: A-Z and the Latin-1 capitals (all of C0-DE but D7)\<close>
  "lower_char c =
     (let n = (of_char c :: nat)
      in if (65 \<le> n \<and> n \<le> 90) \<or> (192 \<le> n \<and> n \<le> 222 \<and> n \<noteq> 215)
         then char_of (n + 32) else c)"

definition toLowerCase :: "string \<Rightarrow> string" where
  "toLowerCase s = map lower_char s"

definition trim :: "string \<Rightarrow> string" where
  "trim s = rev (dropWhile is_space (rev (dropWhile is_space s)))"

definition startsWith :: "string \<Rightarrow> string \<Rightarrow> bool" where
  "startsWith s p = prefix p s"

fun includes_str :: "string \<Rightarrow> string \<Rightarrow> bool" where
  \<comment> \<open>\<^verbatim>\<open>s.includes(p)\<close>: \<open>p\<close> occurs in \<open>s\<close> as a contiguous substring\<close>
  "includes_str [] p = (p = [])"
| "includes_str (c # s) p = (startsWith (c # s) p \<or> includes_str s p)"

fun split :: "string \<Rightarrow> char \<Rightarrow> string list" where
  \<comment> \<open>\<^verbatim>\<open>s.split(d)\<close> for a one-character separator; never the empty array\<close>
  "split [] d = [[]]"
| "split (c # s) d =
     (if c = d then [] # split s d
      else (case split s d of [] \<Rightarrow> [[c]] | w # ws \<Rightarrow> (c # w) # ws))"

fun replace :: "string \<Rightarrow> string \<Rightarrow> string \<Rightarrow> string" where
  \<comment> \<open>\<^verbatim>\<open>s.replace(p, r)\<close> with a string pattern and a replacement without \<^verbatim>\<open>$\<close>:
      the first occurrence only\<close>
  "replace [] p r = (if p = [] then r else [])"
| "replace (c # s) p r =
     (if startsWith (c # s) p then r @ drop (length p) (c # s)
      else c # replace s p r)"

definition parseInt :: "string \<Rightarrow> nat" where
  \<comment> \<open>\<^verbatim>\<open>parseInt(ds, 10)\<close> on a string of decimal digits (all the code passes to it)\<close>
  "parseInt ds = foldl (\<lambda>n c. 10 * n + (of_char c - 48)) 0 ds"


section \<open>The project directory\<close>

text \<open>
  What \<^verbatim>\<open>detectProject\<close> reads of the file system: the listing of the root directory, in
  the order \<^verbatim>\<open>fs.readdirSync\<close> returns it, and what is at a path relative to the root.
  The two are independent in the model, as they are for the code (a listed name can be a
  dangling link; \<^verbatim>\<open>src/main.ts\<close> is not a top-level entry).
\<close>

datatype node = File string | Dir

record project_dir =
  listing :: "string list"
  node_at :: "string \<rightharpoonup> node"

datatype error = ENOENT | EISDIR | SyntaxError | TypeError

definition existsSync :: "project_dir \<Rightarrow> string \<Rightarrow> bool" where
  "existsSync d p = (node_at d p \<noteq> None)"

definition readFileSync :: "project_dir \<Rightarrow> string \<Rightarrow> error + string" where
  "readFileSync d p =
     (case node_at d p of
        None \<Rightarrow> Inl ENOENT
      | Some Dir \<Rightarrow> Inl EISDIR
      | Some (File c) \<Rightarrow> Inr c)"


section \<open>Types (core/types.ts)\<close>

datatype ProjectType = Flask | Django | Fastapi | Nestjs | Nextjs | Nuxtjs | Vue_spa | React_spa

datatype Language = Python | Node

record DetectionResult =
  type :: "ProjectType option"
  language :: "Language option"
  languageVersion :: string
  port :: nat
  buildCmd :: string
  startCmd :: string
  entryFile :: string
  envFile :: "string option"
  envKeys :: "string list"
  hasDocker :: bool
  hasCI :: bool

record Defaults =
  dport :: nat
  dbuildCmd :: string
  dstartCmd :: string
  dentryFile :: string

fun PROJECT_DEFAULTS :: "ProjectType \<Rightarrow> Defaults" where
  "PROJECT_DEFAULTS Flask = \<lparr>dport = 5000, dbuildCmd = '''',
     dstartCmd = ''gunicorn -w 4 -b 0.0.0.0:5000 app:app'', dentryFile = ''app.py''\<rparr>"
| "PROJECT_DEFAULTS Django = \<lparr>dport = 8000,
     dbuildCmd = ''python manage.py collectstatic --noinput'',
     dstartCmd = ''gunicorn -w 4 -b 0.0.0.0:8000 config.wsgi:application'',
     dentryFile = ''manage.py''\<rparr>"
| "PROJECT_DEFAULTS Fastapi = \<lparr>dport = 8000, dbuildCmd = '''',
     dstartCmd = ''uvicorn main:app --host 0.0.0.0 --port 8000'', dentryFile = ''main.py''\<rparr>"
| "PROJECT_DEFAULTS Nestjs = \<lparr>dport = 3000, dbuildCmd = ''npm run build'',
     dstartCmd = ''node dist/main'', dentryFile = ''src/main.ts''\<rparr>"
| "PROJECT_DEFAULTS Nextjs = \<lparr>dport = 3000, dbuildCmd = ''npm run build'',
     dstartCmd = ''npm start'', dentryFile = ''pages/index.tsx''\<rparr>"
| "PROJECT_DEFAULTS Nuxtjs = \<lparr>dport = 3000, dbuildCmd = ''npm run build'',
     dstartCmd = ''node .output/server/index.mjs'', dentryFile = ''nuxt.config.ts''\<rparr>"
| "PROJECT_DEFAULTS Vue_spa = \<lparr>dport = 80, dbuildCmd = ''npm run build'',
     dstartCmd = '''', dentryFile = ''src/main.ts''\<rparr>"
| "PROJECT_DEFAULTS React_spa = \<lparr>dport = 80, dbuildCmd = ''npm run build'',
     dstartCmd = '''', dentryFile = ''src/index.tsx''\<rparr>"


section \<open>The detector (core/detector.ts)\<close>

subsection \<open>parseEnvKeys\<close>

definition env_line :: "string \<Rightarrow> bool" where
  \<comment> \<open>the filter of \<^verbatim>\<open>parseEnvKeys\<close>\<close>
  "env_line line =
     (trim line \<noteq> [] \<and> \<not> startsWith line ''#'' \<and> includes_str line ''='')"

definition parseEnvKeys :: "project_dir \<Rightarrow> string \<Rightarrow> error + string list" where
  "parseEnvKeys d envPath =
     (case readFileSync d envPath of
        Inl e \<Rightarrow> Inl e
      | Inr content \<Rightarrow>
          Inr (map (\<lambda>line. trim (hd (split line CHR ''='')))
                 (filter env_line (split content CHR 0x0A))))"

subsection \<open>detectPythonFramework\<close>

definition detectPythonFramework ::
  "project_dir \<Rightarrow> string list \<Rightarrow> error + ProjectType option" where
  "detectPythonFramework d files =
     (case (if ''requirements.txt'' \<in> set files
            then map_sum id toLowerCase (readFileSync d ''requirements.txt'')
            else if ''pyproject.toml'' \<in> set files
            then map_sum id toLowerCase (readFileSync d ''pyproject.toml'')
            else Inr '''') of
        Inl e \<Rightarrow> Inl e
      | Inr deps \<Rightarrow>
          Inr (if includes_str deps ''fastapi'' then Some Fastapi
               else if includes_str deps ''django'' then Some Django
               else if includes_str deps ''flask'' then Some Flask
               else if ''manage.py'' \<in> set files then Some Django
               else if ''app.py'' \<in> set files then Some Flask
               else if ''main.py'' \<in> set files then Some Fastapi
               else None))"

subsection \<open>detectNodeFramework\<close>

text \<open>
  \<^verbatim>\<open>JSON.parse\<close> is the runtime's, not the repository's: the detector takes it as a
  parameter \<open>parse\<close>, which returns the parsed value or the \<^verbatim>\<open>SyntaxError\<close> it throws.
  A parsed object is the list of its own properties, each key once. Of a number the code
  observes only whether it is zero, so numbers are integers here.
\<close>

datatype json =
  JNull | JBool bool | JNumber int | JString string
  | JArray "json list" | JObject "(string \<times> json) list"

fun get_prop :: "json \<Rightarrow> string \<Rightarrow> error + json option" where
  \<comment> \<open>\<^verbatim>\<open>v[k]\<close> for a key \<open>k\<close> that no prototype defines and that is no index:
      \<^verbatim>\<open>undefined\<close> is \<open>None\<close>, and reading a property of \<^verbatim>\<open>null\<close> throws\<close>
  "get_prop JNull k = Inl TypeError"
| "get_prop (JObject kvs) k = Inr (map_of kvs k)"
| "get_prop v k = Inr None"

fun decimal :: "nat \<Rightarrow> string" where
  "decimal n = (if n < 10 then [char_of (48 + n)]
                else decimal (n div 10) @ [char_of (48 + n mod 10)])"

fun spread :: "json option \<Rightarrow> (string \<times> json) list" where
  \<comment> \<open>the own enumerable properties that \<^verbatim>\<open>{...v}\<close> copies\<close>
  "spread (Some (JObject kvs)) = kvs"
| "spread (Some (JArray xs)) = zip (map decimal [0..<length xs]) xs"
| "spread (Some (JString s)) = zip (map decimal [0..<length s]) (map (\<lambda>c. JString [c]) s)"
| "spread v = []"

fun truthy :: "json option \<Rightarrow> bool" where
  "truthy None = False"
| "truthy (Some JNull) = False"
| "truthy (Some (JBool b)) = b"
| "truthy (Some (JNumber n)) = (n \<noteq> 0)"
| "truthy (Some (JString s)) = (s \<noteq> [])"
| "truthy (Some v) = True"

definition detectNodeFramework ::
  "(string \<Rightarrow> error + json) \<Rightarrow> project_dir \<Rightarrow> error + ProjectType option" where
  "detectNodeFramework parse d =
     (if \<not> existsSync d ''package.json'' then Inr None
      else case readFileSync d ''package.json'' of
        Inl e \<Rightarrow> Inl e
      | Inr content \<Rightarrow>
      (case parse content of
        Inl e \<Rightarrow> Inl e
      | Inr pkg \<Rightarrow>
      (case get_prop pkg ''dependencies'' of
        Inl e \<Rightarrow> Inl e
      | Inr deps \<Rightarrow>
      (case get_prop pkg ''devDependencies'' of
        Inl e \<Rightarrow> Inl e
      | Inr devDeps \<Rightarrow>
          (let allDeps = map_of (spread deps) ++ map_of (spread devDeps)
           in Inr (if truthy (allDeps ''@nestjs/core'') then Some Nestjs
                   else if truthy (allDeps ''next'') then Some Nextjs
                   else if truthy (allDeps ''nuxt'') \<or> truthy (allDeps ''nuxt3'') then Some Nuxtjs
                   else if truthy (allDeps ''vue'') \<and> \<not> truthy (allDeps ''nuxt'') then Some Vue_spa
                   else if truthy (allDeps ''react'') \<and> \<not> truthy (allDeps ''next'')
                     then Some React_spa
                   else None))))))"

subsection \<open>detectPort\<close>

text \<open>
  The three regular expressions, each as the function that matches it at the start of a
  string and returns capture group 1. None of them needs backtracking: after a greedy
  \<^verbatim>\<open>\s*\<close> the next pattern character is no space, after the optional quote it is no
  quote, and \<^verbatim>\<open>\d{4,5}\<close> ends the pattern. Under the flag \<^verbatim>\<open>i\<close> a code unit matches an
  ASCII letter of the pattern when its lower-case form is that letter.
\<close>

fun literal :: "(char \<Rightarrow> char \<Rightarrow> bool) \<Rightarrow> string \<Rightarrow> string \<Rightarrow> string option" where
  \<comment> \<open>the pattern's letters at the start of the string; returns what follows them\<close>
  "literal eq [] s = Some s"
| "literal eq (p # ps) [] = None"
| "literal eq (p # ps) (c # s) = (if eq p c then literal eq ps s else None)"

definition ignore_case :: "char \<Rightarrow> char \<Rightarrow> bool" where
  "ignore_case p c = (lower_char c = p)"

definition digits45 :: "string \<Rightarrow> string option" where
  \<comment> \<open>\<^verbatim>\<open>(\d{4,5})\<close>, greedy\<close>
  "digits45 s = (let ds = takeWhile is_digit s
                 in if 4 \<le> length ds then Some (take 5 ds) else None)"

definition after_spaces :: "string \<Rightarrow> char list \<Rightarrow> (string \<Rightarrow> string option) \<Rightarrow> string option" where
  \<comment> \<open>\<^verbatim>\<open>\s*[cs]\<close> and then the rest of the pattern\<close>
  "after_spaces s cs k =
     (case dropWhile is_space s of
        [] \<Rightarrow> None
      | c # r \<Rightarrow> if c \<in> set cs then k r else None)"

definition pattern1 :: "string \<Rightarrow> string option" where
  \<comment> \<open>\<^verbatim>\<open>/port\s*[=:]\s*(\d{4,5})/i\<close>\<close>
  "pattern1 s =
     (case literal ignore_case ''port'' s of
        None \<Rightarrow> None
      | Some r \<Rightarrow> after_spaces r ''=:'' (\<lambda>r. digits45 (dropWhile is_space r)))"

definition pattern2 :: "string \<Rightarrow> string option" where
  \<comment> \<open>\<^verbatim>\<open>/listen\s*\(\s*(\d{4,5})/i\<close>\<close>
  "pattern2 s =
     (case literal ignore_case ''listen'' s of
        None \<Rightarrow> None
      | Some r \<Rightarrow> after_spaces r ''('' (\<lambda>r. digits45 (dropWhile is_space r)))"

definition pattern3 :: "string \<Rightarrow> string option" where
  \<comment> \<open>\<^verbatim>\<open>/PORT\s*[=:]\s*["']?(\d{4,5})/\<close>\<close>
  "pattern3 s =
     (case literal (=) ''PORT'' s of
        None \<Rightarrow> None
      | Some r \<Rightarrow> after_spaces r ''=:''
          (\<lambda>r. case dropWhile is_space r of
                 [] \<Rightarrow> None
               | q # t \<Rightarrow> if q = CHR 0x22 \<or> q = CHR 0x27 then digits45 t
                          else digits45 (q # t)))"

fun match :: "string \<Rightarrow> (string \<Rightarrow> string option) \<Rightarrow> string option" where
  \<comment> \<open>\<^verbatim>\<open>content.match(pattern)\<close>: group 1 of the leftmost match\<close>
  "match [] pattern = pattern []"
| "match (c # s) pattern =
     (case pattern (c # s) of Some g \<Rightarrow> Some g | None \<Rightarrow> match s pattern)"

definition portPatterns :: "(string \<Rightarrow> string option) list" where
  "portPatterns = [pattern1, pattern2, pattern3]"

fun first_pattern :: "(string \<Rightarrow> string option) list \<Rightarrow> string \<Rightarrow> nat option" where
  \<comment> \<open>the inner loop of \<^verbatim>\<open>detectPort\<close>\<close>
  "first_pattern [] content = None"
| "first_pattern (pattern # ps) content =
     (case match content pattern of
        Some g \<Rightarrow> Some (parseInt g)
      | None \<Rightarrow> first_pattern ps content)"

fun scan_candidates :: "project_dir \<Rightarrow> string list \<Rightarrow> error + nat option" where
  \<comment> \<open>the outer loop of \<^verbatim>\<open>detectPort\<close>\<close>
  "scan_candidates d [] = Inr None"
| "scan_candidates d (file # fs) =
     (if \<not> existsSync d file then scan_candidates d fs
      else case readFileSync d file of
        Inl e \<Rightarrow> Inl e
      | Inr content \<Rightarrow>
          (case first_pattern portPatterns content of
             Some n \<Rightarrow> Inr (Some n)
           | None \<Rightarrow> scan_candidates d fs))"

fun candidates :: "Language option \<Rightarrow> string list" where
  "candidates (Some Python) = [''app.py'', ''main.py'', ''manage.py'', ''config.py'', ''settings.py'']"
| "candidates (Some Node) = [''src/main.ts'', ''src/index.ts'', ''server.js'', ''index.js'', ''app.js'']"
| "candidates None = []"

definition detectPort :: "project_dir \<Rightarrow> Language option \<Rightarrow> error + nat option" where
  "detectPort d lang = scan_candidates d (candidates lang)"

subsection \<open>detectProject\<close>

text \<open>The function in its four stages, in the order of the source; an exception ends it.\<close>

definition is_env_name :: "string \<Rightarrow> bool" where
  "is_env_name f = (f = ''.env'' \<or> f = ''.env.example'' \<or> f = ''.env.production'')"

definition detect_env :: "project_dir \<Rightarrow> DetectionResult \<Rightarrow> error + DetectionResult" where
  \<comment> \<open>lines 21-26\<close>
  "detect_env d result =
     (case find is_env_name (listing d) of
        None \<Rightarrow> Inr result
      | Some f \<Rightarrow>
          (case parseEnvKeys d f of
             Inl e \<Rightarrow> Inl e
           | Inr keys \<Rightarrow> Inr (result\<lparr>envFile := Some f, envKeys := keys\<rparr>)))"

definition detect_language ::
  "(string \<Rightarrow> error + json) \<Rightarrow> project_dir \<Rightarrow> DetectionResult \<Rightarrow> error + DetectionResult" where
  \<comment> \<open>lines 28-39\<close>
  "detect_language parse d result =
     (let files = listing d
      in if ''requirements.txt'' \<in> set files \<or> ''pyproject.toml'' \<in> set files
            \<or> ''Pipfile'' \<in> set files
         then (case detectPythonFramework d files of
                 Inl e \<Rightarrow> Inl e
               | Inr t \<Rightarrow> Inr (result\<lparr>language := Some Python, languageVersion := ''3.11'',
                                       type := t\<rparr>))
         else if ''package.json'' \<in> set files
         then (case detectNodeFramework parse d of
                 Inl e \<Rightarrow> Inl e
               | Inr t \<Rightarrow> Inr (result\<lparr>language := Some Node, languageVersion := ''20'',
                                       type := t\<rparr>))
         else Inr result)"

definition apply_defaults :: "project_dir \<Rightarrow> DetectionResult \<Rightarrow> error + DetectionResult" where
  \<comment> \<open>lines 41-60\<close>
  "apply_defaults d result =
     (case type result of
        None \<Rightarrow> Inr result
      | Some t \<Rightarrow>
          (let defaults = PROJECT_DEFAULTS t;
               result = result\<lparr>port := dport defaults, buildCmd := dbuildCmd defaults,
                                 startCmd := dstartCmd defaults, entryFile := dentryFile defaults\<rparr>
           in if t = Flask \<and> existsSync d ''run.py''
              then (case readFileSync d ''run.py'' of
                      Inl e \<Rightarrow> Inl e
                    | Inr content \<Rightarrow>
                        if includes_str content ''create_app''
                        then Inr (result\<lparr>startCmd := replace (startCmd result) ''app:app'' ''run:app'',
                                           entryFile := ''run.py''\<rparr>)
                        else Inr result)
              else Inr result))"

definition apply_port :: "project_dir \<Rightarrow> DetectionResult \<Rightarrow> error + DetectionResult" where
  \<comment> \<open>lines 62-64; \<^verbatim>\<open>if (detectedPort)\<close> is false for \<^verbatim>\<open>null\<close> and for 0\<close>
  "apply_port d result =
     (case detectPort d (language result) of
        Inl e \<Rightarrow> Inl e
      | Inr None \<Rightarrow> Inr result
      | Inr (Some n) \<Rightarrow> Inr (if n \<noteq> 0 then result\<lparr>port := n\<rparr> else result))"

definition initial_result :: "project_dir \<Rightarrow> DetectionResult" where
  \<comment> \<open>lines 7-19\<close>
  "initial_result d =
     \<lparr>type = None, language = None, languageVersion = '''', port = 3000, buildCmd = '''',
      startCmd = '''', entryFile = '''', envFile = None, envKeys = [],
      hasDocker = (''Dockerfile'' \<in> set (listing d)),
      hasCI = existsSync d ''.github/workflows''\<rparr>"

definition detectProject ::
  "(string \<Rightarrow> error + json) \<Rightarrow> project_dir \<Rightarrow> error + DetectionResult" where
  "detectProject parse d =
     (case detect_env d (initial_result d) of
        Inl e \<Rightarrow> Inl e
      | Inr r1 \<Rightarrow>
      (case detect_language parse d r1 of
        Inl e \<Rightarrow> Inl e
      | Inr r2 \<Rightarrow>
      (case apply_defaults d r2 of
        Inl e \<Rightarrow> Inl e
      | Inr r3 \<Rightarrow> apply_port d r3)))"


section \<open>The user-global store (utils/config-store.ts)\<close>

record ServerConfig =
  host :: string
  user :: string
  sshKeyPath :: string
  deployDir :: string

record ProjectRecord =
  record_type :: ProjectType
  lastDeploy :: "string option"

text \<open>
  A \<^verbatim>\<open>Record<string, T>\<close> is the map of the object's own properties: they are what
  \<^verbatim>\<open>Object.keys\<close> lists and what \<^verbatim>\<open>JSON.stringify\<close> writes.
\<close>

record GlobalConfig =
  servers :: "string \<rightharpoonup> ServerConfig"
  projects :: "string \<rightharpoonup> ProjectRecord"

text \<open>
  The store on disk: whether \<^verbatim>\<open>CONFIG_DIR\<close> exists, and the configuration that
  \<^verbatim>\<open>CONFIG_FILE\<close> holds, if the file exists. The JSON text is not modelled: the file
  holds the value that \<^verbatim>\<open>JSON.parse\<close> reads from it, which for a file written by
  \<^verbatim>\<open>saveGlobalConfig\<close> is the own properties of the value written.
\<close>

record store =
  config_dir :: bool
  config_file :: "GlobalConfig option"

definition ensureDir :: "store \<Rightarrow> store" where
  "ensureDir s = (if \<not> config_dir s then s\<lparr>config_dir := True\<rparr> else s)"

definition loadGlobalConfig :: "store \<Rightarrow> GlobalConfig \<times> store" where
  "loadGlobalConfig s =
     (let s = ensureDir s
      in case config_file s of
           None \<Rightarrow> (\<lparr>servers = Map.empty, projects = Map.empty\<rparr>, s)
         | Some config \<Rightarrow> (config, s))"

definition saveGlobalConfig :: "GlobalConfig \<Rightarrow> store \<Rightarrow> store" where
  "saveGlobalConfig config s = (ensureDir s)\<lparr>config_file := Some config\<rparr>"

definition getSavedServers :: "store \<Rightarrow> (string \<rightharpoonup> ServerConfig) \<times> store" where
  "getSavedServers s = (case loadGlobalConfig s of (config, s) \<Rightarrow> (servers config, s))"

definition assign :: "(string \<rightharpoonup> 'a) \<Rightarrow> string \<Rightarrow> 'a \<Rightarrow> (string \<rightharpoonup> 'a)" where
  \<comment> \<open>\<^verbatim>\<open>obj[name] = value\<close> on an ordinary object, for an object \<open>value\<close>, as far as the own
      properties go. The object inherits the accessor \<^verbatim>\<open>__proto__\<close> of
      \<^verbatim>\<open>Object.prototype\<close>: unless it owns a property of that name, the assignment
      calls the setter, which replaces the object's prototype and creates no property.\<close>
  "assign obj name v =
     (if name = ''__proto__'' \<and> obj name = None then obj else obj(name \<mapsto> v))"

definition saveServer :: "string \<Rightarrow> ServerConfig \<Rightarrow> store \<Rightarrow> store" where
  "saveServer name server s =
     (case loadGlobalConfig s of
        (config, s) \<Rightarrow>
          saveGlobalConfig (config\<lparr>servers := assign (servers config) name server\<rparr>) s)"


section \<open>The collector (core/collector.ts)\<close>

record ProjectConfig =
  project_name :: string
  project_type :: ProjectType
  project_port :: int
  project_buildCmd :: string
  project_startCmd :: string
  project_language :: Language

record DomainConfig =
  enabled :: bool
  domain_name :: string
  https :: bool

record BranchConfig =
  production :: string
  staging :: "string option"

record CollectedConfig =
  project :: ProjectConfig
  server :: ServerConfig
  domain :: DomainConfig
  secrets :: "string list"
  branches :: BranchConfig
  registry :: string

subsection \<open>The operator\<close>

text \<open>
  The operator is the list of the answers still to come. An answer is the value that
  \<^verbatim>\<open>inquirer.prompt\<close> hands to its validator or resolves to: the library has applied the
  prompt's default to an empty input, and it asks a validated question again until the
  validator accepts. A prompt whose answer never comes, or is none that the prompt can
  give, never resolves: the function has no result (\<open>None\<close>, \<open>Pending\<close>). The numbers
  of the number prompt are integers here; nothing proved below depends on the port entered.
\<close>

datatype answer =
  Text string | Number int | Confirm bool | Choice string | Checked "string list"

record world =
  disk :: store
  script :: "answer list"

definition prompt_input :: "world \<Rightarrow> (string \<times> world) option" where
  "prompt_input w =
     (case script w of Text v # rest \<Rightarrow> Some (v, w\<lparr>script := rest\<rparr>) | _ \<Rightarrow> None)"

definition prompt_number :: "world \<Rightarrow> (int \<times> world) option" where
  "prompt_number w =
     (case script w of Number n # rest \<Rightarrow> Some (n, w\<lparr>script := rest\<rparr>) | _ \<Rightarrow> None)"

definition prompt_confirm :: "world \<Rightarrow> (bool \<times> world) option" where
  "prompt_confirm w =
     (case script w of Confirm b # rest \<Rightarrow> Some (b, w\<lparr>script := rest\<rparr>) | _ \<Rightarrow> None)"

definition prompt_list :: "world \<Rightarrow> (string \<times> world) option" where
  "prompt_list w =
     (case script w of Choice c # rest \<Rightarrow> Some (c, w\<lparr>script := rest\<rparr>) | _ \<Rightarrow> None)"

definition prompt_checkbox :: "string list \<Rightarrow> world \<Rightarrow> (string list \<times> world) option" where
  "prompt_checkbox choices w =
     (case script w of
        Checked vs # rest \<Rightarrow>
          if set vs \<subseteq> set choices then Some (vs, w\<lparr>script := rest\<rparr>) else None
      | _ \<Rightarrow> None)"

fun first_valid :: "(string \<Rightarrow> bool) \<Rightarrow> answer list \<Rightarrow> (string \<times> answer list) option" where
  "first_valid validate (Text v # rest) =
     (if validate v then Some (v, rest) else first_valid validate rest)"
| "first_valid validate rest = None"

definition prompt_validated :: "(string \<Rightarrow> bool) \<Rightarrow> world \<Rightarrow> (string \<times> world) option" where
  "prompt_validated validate w =
     (case first_valid validate (script w) of
        None \<Rightarrow> None
      | Some (v, rest) \<Rightarrow> Some (v, w\<lparr>script := rest\<rparr>))"

subsection \<open>The collection steps\<close>

definition valid_name :: "string \<Rightarrow> bool" where
  \<comment> \<open>\<^verbatim>\<open>/^[a-z0-9-]+$/.test(v)\<close>\<close>
  "valid_name v =
     (v \<noteq> [] \<and> list_all (\<lambda>c. c \<in> set ''abcdefghijklmnopqrstuvwxyz0123456789-'') v)"

definition not_blank :: "string \<Rightarrow> bool" where
  \<comment> \<open>\<^verbatim>\<open>v.trim().length > 0\<close>\<close>
  "not_blank v = (trim v \<noteq> [])"

fun type_value :: "string \<Rightarrow> ProjectType option" where
  \<comment> \<open>the values of \<^verbatim>\<open>typeChoices\<close>, the keys of \<^verbatim>\<open>PROJECT_TYPE_LABELS\<close>\<close>
  "type_value v =
     (if v = ''flask'' then Some Flask
      else if v = ''django'' then Some Django
      else if v = ''fastapi'' then Some Fastapi
      else if v = ''nestjs'' then Some Nestjs
      else if v = ''nextjs'' then Some Nextjs
      else if v = ''nuxtjs'' then Some Nuxtjs
      else if v = ''vue-spa'' then Some Vue_spa
      else if v = ''react-spa'' then Some React_spa
      else None)"

definition collectProjectConfig ::
  "DetectionResult \<Rightarrow> string \<Rightarrow> world \<Rightarrow> (ProjectConfig \<times> world) option" where
  \<comment> \<open>\<open>detection\<close> and \<open>projectName\<close> are the prompts' defaults only\<close>
  "collectProjectConfig detection projectName w =
     (case prompt_validated valid_name w of None \<Rightarrow> None | Some (name, w) \<Rightarrow>
     (case prompt_list w of None \<Rightarrow> None | Some (type_answer, w) \<Rightarrow>
     (case type_value type_answer of None \<Rightarrow> None | Some t \<Rightarrow>
     (case prompt_number w of None \<Rightarrow> None | Some (port', w) \<Rightarrow>
     (case prompt_input w of None \<Rightarrow> None | Some (buildCmd', w) \<Rightarrow>
     (case prompt_input w of None \<Rightarrow> None | Some (startCmd', w) \<Rightarrow>
        Some (\<lparr>project_name = name, project_type = t, project_port = port',
                project_buildCmd = buildCmd', project_startCmd = startCmd',
                project_language = (if t \<in> {Flask, Django, Fastapi} then Python else Node)\<rparr>,
              w)))))))"

definition new_server :: "world \<Rightarrow> (ServerConfig \<times> world) option" where
  \<comment> \<open>lines 116-152 of \<^verbatim>\<open>collectServerConfig\<close>\<close>
  "new_server w =
     (case prompt_validated not_blank w of None \<Rightarrow> None | Some (host', w) \<Rightarrow>
     (case prompt_input w of None \<Rightarrow> None | Some (user', w) \<Rightarrow>
     (case prompt_input w of None \<Rightarrow> None | Some (sshKeyPath', w) \<Rightarrow>
     (case prompt_input w of None \<Rightarrow> None | Some (deployDir', w) \<Rightarrow>
     (case prompt_input w of None \<Rightarrow> None | Some (saveName, w) \<Rightarrow>
        (let answers = \<lparr>host = host', user = user', sshKeyPath = sshKeyPath',
                        deployDir = deployDir'\<rparr>
         in Some (answers, w\<lparr>disk := saveServer saveName answers (disk w)\<rparr>)))))))"

definition collectServerConfig :: "world \<Rightarrow> (ServerConfig \<times> world) option" where
  "collectServerConfig w =
     (case getSavedServers (disk w) of
        (saved, s) \<Rightarrow>
          (let w = w\<lparr>disk := s\<rparr>
           in if dom saved \<noteq> {}
              then (case prompt_list w of
                      None \<Rightarrow> None
                    | Some (choice, w) \<Rightarrow>
                        if choice \<noteq> ''__new__''
                        then (case saved choice of
                                None \<Rightarrow> None
                              | Some server' \<Rightarrow>
                                  (case prompt_input w of
                                     None \<Rightarrow> None
                                   | Some (deployDir', w) \<Rightarrow>
                                       Some (server'\<lparr>deployDir := deployDir'\<rparr>, w)))
                        else new_server w)
              else new_server w))"

definition collectDomainConfig :: "world \<Rightarrow> (DomainConfig \<times> world) option" where
  "collectDomainConfig w =
     (case prompt_confirm w of None \<Rightarrow> None | Some (enabled', w) \<Rightarrow>
        if \<not> enabled' then Some (\<lparr>enabled = False, domain_name = '''', https = False\<rparr>, w)
        else
          (case prompt_validated not_blank w of None \<Rightarrow> None | Some (name, w) \<Rightarrow>
          (case prompt_confirm w of None \<Rightarrow> None | Some (https', w) \<Rightarrow>
             Some (\<lparr>enabled = enabled', domain_name = name, https = https'\<rparr>, w))))"

definition collectSecrets :: "string list \<Rightarrow> world \<Rightarrow> (string list \<times> world) option" where
  "collectSecrets keys w =
     (if length keys = 0 then Some ([], w) else prompt_checkbox keys w)"

definition collectBranchConfig :: "world \<Rightarrow> (BranchConfig \<times> world) option" where
  "collectBranchConfig w =
     (case prompt_input w of None \<Rightarrow> None | Some (production', w) \<Rightarrow>
     (case prompt_confirm w of None \<Rightarrow> None | Some (hasStaging, w) \<Rightarrow>
        if hasStaging
        then (case prompt_input w of None \<Rightarrow> None | Some (staging', w) \<Rightarrow>
                Some (\<lparr>production = production', staging = Some staging'\<rparr>, w))
        else Some (\<lparr>production = production', staging = None\<rparr>, w)))"

subsection \<open>The review loop\<close>

datatype 'a outcome =
  Return 'a world  \<comment> \<open>the function returns\<close>
  | Exit int world  \<comment> \<open>\<^verbatim>\<open>process.exit(code)\<close>\<close>
  | Pending  \<comment> \<open>a prompt never resolves\<close>

function reviewLoop :: "CollectedConfig \<Rightarrow> DetectionResult \<Rightarrow> world \<Rightarrow> CollectedConfig outcome" where
  "reviewLoop config detection w =
     (case prompt_list w of
        None \<Rightarrow> Pending
      | Some (action, w) \<Rightarrow>
          if action = ''confirm'' then Return config w
          else if action = ''cancel'' then Exit 0 w
          else if action = ''project''
          then (case collectProjectConfig detection (project_name (project config)) w of
                  None \<Rightarrow> Pending
                | Some (p, w) \<Rightarrow> reviewLoop (config\<lparr>project := p\<rparr>) detection w)
          else if action = ''server''
          then (case collectServerConfig w of
                  None \<Rightarrow> Pending
                | Some (s, w) \<Rightarrow> reviewLoop (config\<lparr>server := s\<rparr>) detection w)
          else if action = ''domain''
          then (case collectDomainConfig w of
                  None \<Rightarrow> Pending
                | Some (dm, w) \<Rightarrow> reviewLoop (config\<lparr>domain := dm\<rparr>) detection w)
          else Pending)"
  by pat_completeness auto

text \<open>Every turn of the loop takes at least one answer, so the loop ends with the script.\<close>

termination
proof (relation "measure (\<lambda>(config, detection, w). length (script w))")
  have valid: "length rest < length xs"
    if "first_valid validate xs = Some (v, rest)" for validate xs v rest
    using that by (induction validate xs rule: first_valid.induct) (auto split: if_splits)
  have validated: "length (script w') < length (script w)"
    if "prompt_validated validate w = Some (v, w')" for validate w v w'
    using that valid by (fastforce simp: prompt_validated_def split: option.splits)
  have input: "length (script w') < length (script w)"
    if "prompt_input w = Some (v, w')" for w v w'
    using that by (auto simp: prompt_input_def split: list.splits answer.splits)
  have number: "length (script w') < length (script w)"
    if "prompt_number w = Some (n, w')" for w n w'
    using that by (auto simp: prompt_number_def split: list.splits answer.splits)
  have confirm: "length (script w') < length (script w)"
    if "prompt_confirm w = Some (b, w')" for w b w'
    using that by (auto simp: prompt_confirm_def split: list.splits answer.splits)
  have choice: "length (script w') < length (script w)"
    if "prompt_list w = Some (c, w')" for w c w'
    using that by (auto simp: prompt_list_def split: list.splits answer.splits)
  have proj: "length (script w') < length (script w)"
    if "collectProjectConfig detection n w = Some (p, w')" for detection n w p w'
    using that
    by (auto simp: collectProjectConfig_def split: option.splits prod.splits
        dest!: validated input number choice)
  have new: "length (script w') < length (script w)"
    if "new_server w = Some (s, w')" for w s w'
    using that
    by (auto simp: new_server_def Let_def split: option.splits prod.splits
        dest!: validated input)
  have serv: "length (script w') < length (script w)"
    if "collectServerConfig w = Some (s, w')" for w s w'
    using that
    by (auto simp: collectServerConfig_def Let_def split: option.splits prod.splits if_splits
        dest!: new input choice)
  have dom: "length (script w') < length (script w)"
    if "collectDomainConfig w = Some (dm, w')" for w dm w'
    using that
    by (auto simp: collectDomainConfig_def split: option.splits prod.splits if_splits
        dest!: validated confirm)
  show "wf (measure (\<lambda>(config, detection, w). length (script w)))" by simp
  show "((config\<lparr>project := p\<rparr>, detection, w''), config, detection, w)
          \<in> measure (\<lambda>(config, detection, w). length (script w))"
    if "prompt_list w = Some x" "(action, w') = x"
       "collectProjectConfig detection (project_name (project config)) w' = Some y" "(p, w'') = y"
    for config :: CollectedConfig and detection w x action w' y p w''
    using that by (auto dest!: choice proj)
  show "((config\<lparr>server := s\<rparr>, detection, w''), config, detection, w)
          \<in> measure (\<lambda>(config, detection, w). length (script w))"
    if "prompt_list w = Some x" "(action, w') = x"
       "collectServerConfig w' = Some y" "(s, w'') = y"
    for config :: CollectedConfig and detection :: DetectionResult and w x action w' y s w''
    using that by (auto dest!: choice serv)
  show "((config\<lparr>domain := dm\<rparr>, detection, w''), config, detection, w)
          \<in> measure (\<lambda>(config, detection, w). length (script w))"
    if "prompt_list w = Some x" "(action, w') = x"
       "collectDomainConfig w' = Some y" "(dm, w'') = y"
    for config :: CollectedConfig and detection :: DetectionResult and w x action w' y dm w''
    using that by (auto dest!: choice dom)
qed

declare reviewLoop.simps [simp del]

subsection \<open>collectConfig\<close>

definition collectConfig ::
  "DetectionResult \<Rightarrow> string \<Rightarrow> world \<Rightarrow> CollectedConfig outcome" where
  "collectConfig detection projectName w =
     (case collectProjectConfig detection projectName w of None \<Rightarrow> Pending | Some (p, w) \<Rightarrow>
     (case collectServerConfig w of None \<Rightarrow> Pending | Some (s, w) \<Rightarrow>
     (case collectDomainConfig w of None \<Rightarrow> Pending | Some (dm, w) \<Rightarrow>
     (case collectSecrets (envKeys detection) w of None \<Rightarrow> Pending | Some (sec, w) \<Rightarrow>
     (case collectBranchConfig w of None \<Rightarrow> Pending | Some (br, w) \<Rightarrow>
        reviewLoop \<lparr>project = p, server = s, domain = dm, secrets = sec, branches = br,
                    registry = ''ghcr.io''\<rparr> detection w)))))"


section \<open>The marker files of an archetype\<close>

text \<open>
  The file by which the detector recognises an archetype from its dependencies: a
  \<^verbatim>\<open>requirements.txt\<close> or \<^verbatim>\<open>pyproject.toml\<close> whose text names the framework (and no
  framework that the detector looks for earlier), or a \<^verbatim>\<open>package.json\<close> whose
  \<^verbatim>\<open>dependencies\<close> are the framework's package, at some version \<open>v\<close>, and which has no
  \<^verbatim>\<open>devDependencies\<close>; \<open>props\<close> are the top-level properties of the parsed
  \<^verbatim>\<open>package.json\<close>.
\<close>

fun markers :: "ProjectType \<Rightarrow> string list" where
  "markers Flask = [''requirements.txt'', ''pyproject.toml'']"
| "markers Django = [''requirements.txt'', ''pyproject.toml'']"
| "markers Fastapi = [''requirements.txt'', ''pyproject.toml'']"
| "markers t = [''package.json'']"

definition depends_on ::
  "(string \<Rightarrow> error + json) \<Rightarrow> string \<Rightarrow> (string \<times> json) list \<Rightarrow> string \<Rightarrow> string \<Rightarrow> bool" where
  "depends_on parse content props pkg v =
     (parse content = Inr (JObject props)
      \<and> map_of props ''dependencies'' = Some (JObject [(pkg, JString v)])
      \<and> map_of props ''devDependencies'' = None
      \<and> v \<noteq> [])"

fun names_framework ::
  "(string \<Rightarrow> error + json) \<Rightarrow> ProjectType \<Rightarrow> string \<Rightarrow> (string \<times> json) list \<Rightarrow> string \<Rightarrow> bool"
  where
  "names_framework parse Fastapi content props v =
     includes_str (toLowerCase content) ''fastapi''"
| "names_framework parse Django content props v =
     (includes_str (toLowerCase content) ''django''
      \<and> \<not> includes_str (toLowerCase content) ''fastapi'')"
| "names_framework parse Flask content props v =
     (includes_str (toLowerCase content) ''flask''
      \<and> \<not> includes_str (toLowerCase content) ''fastapi''
      \<and> \<not> includes_str (toLowerCase content) ''django'')"
| "names_framework parse Nestjs content props v = depends_on parse content props ''@nestjs/core'' v"
| "names_framework parse Nextjs content props v = depends_on parse content props ''next'' v"
| "names_framework parse Nuxtjs content props v = depends_on parse content props ''nuxt'' v"
| "names_framework parse Vue_spa content props v = depends_on parse content props ''vue'' v"
| "names_framework parse React_spa content props v = depends_on parse content props ''react'' v"


section \<open>Inputs for the examples\<close>

definition sample_parse :: "string \<Rightarrow> error + json" where
  \<comment> \<open>stands for \<^verbatim>\<open>JSON.parse\<close> in the examples: what it returns on the one text they hand it\<close>
  "sample_parse content =
     (if content = ''{\"name\":\"shop\",\"dependencies\":{\"next\":\"^14.0.0\"}}''
      then Inr (JObject [(''name'', JString ''shop''),
                         (''dependencies'', JObject [(''next'', JString ''^14.0.0'')])])
      else Inl SyntaxError)"


section \<open>Facts about the string functions\<close>

lemma split_not_Nil: "split s d \<noteq> []"
  by (induction s) (auto split: list.splits)

lemma hd_split: "hd (split s d) = takeWhile (\<lambda>c. c \<noteq> d) s"
  by (induction s) (auto split: list.splits simp: split_not_Nil)

lemma includes_str_sublist: "includes_str s p \<longleftrightarrow> sublist p s"
  by (induction s) (auto simp: startsWith_def sublist_Cons_right)

lemma includes_str_char: "includes_str s [c] \<longleftrightarrow> c \<in> set s"
  by (induction s) (auto simp: startsWith_def)

section \<open>The stages of detectProject\<close>

lemma detectProject_stages:
  assumes "detectProject parse d = Inr r"
  obtains r1 r2 r3 where
    "detect_env d (initial_result d) = Inr r1"
    "detect_language parse d r1 = Inr r2"
    "apply_defaults d r2 = Inr r3"
    "apply_port d r3 = Inr r"
  using assms by (auto simp: detectProject_def split: sum.splits)

lemma detect_language_env:
  "detect_language parse d r = Inr r' \<Longrightarrow> envFile r' = envFile r \<and> envKeys r' = envKeys r"
  by (auto simp: detect_language_def Let_def split: if_splits sum.splits)

lemma apply_defaults_env:
  "apply_defaults d r = Inr r' \<Longrightarrow> envFile r' = envFile r \<and> envKeys r' = envKeys r"
  by (auto simp: apply_defaults_def Let_def simp del: replace.simps
      split: option.splits if_splits sum.splits)

lemma apply_port_env:
  "apply_port d r = Inr r' \<Longrightarrow> envFile r' = envFile r \<and> envKeys r' = envKeys r"
  by (auto simp: apply_port_def split: option.splits if_splits sum.splits)

lemma detect_env_None:
  assumes "detect_env d (initial_result d) = Inr r" "find is_env_name (listing d) = None"
  shows "envFile r = None \<and> envKeys r = []"
  using assms by (auto simp: detect_env_def initial_result_def)

lemma env_line_eq:
  "env_line = (\<lambda>line. trim line \<noteq> [] \<and> \<not> prefix ''#'' line \<and> CHR ''='' \<in> set line)"
  by (auto simp: fun_eq_iff env_line_def startsWith_def includes_str_char)

lemma detect_env_Some:
  assumes "detect_env d (initial_result d) = Inr r" "find is_env_name (listing d) = Some f"
  shows "envFile r = Some f \<and>
         (\<exists>content. node_at d f = Some (File content) \<and>
            envKeys r = map (\<lambda>line. trim (takeWhile (\<lambda>c. c \<noteq> CHR ''='') line))
                          (filter (\<lambda>line. trim line \<noteq> [] \<and> \<not> prefix ''#'' line \<and> CHR ''='' \<in> set line)
                             (split content CHR 0x0A)))"
  using assms
  by (auto simp: detect_env_def parseEnvKeys_def readFileSync_def hd_split env_line_eq
      split: sum.splits option.splits node.splits)

lemma find_first_le:
  fixes xs :: "'a::linorder list"
  assumes "sorted xs" "find P xs = Some f" "x \<in> set xs" "P x"
  shows "f \<le> x"
  using assms by (induction xs) (auto split: if_splits)

lemma env_names_sorted:
  assumes "sorted files" "find is_env_name files = Some f"
  shows "f = (if ''.env'' \<in> set files then ''.env''
              else if ''.env.example'' \<in> set files then ''.env.example''
              else ''.env.production'')"
proof -
  have f: "is_env_name f" "f \<in> set files"
    using assms(2) by (auto simp: find_Some_iff)
  have le: "f \<le> x" if "x \<in> set files" "is_env_name x" for x
    using find_first_le[OF assms that] .
  have 1: "\<not> ''.env.example'' \<le> ''.env''" "\<not> ''.env.production'' \<le> ''.env''"
    "\<not> ''.env.production'' \<le> ''.env.example''"
    by simp_all
  show ?thesis
  proof (cases "''.env'' \<in> set files")
    case True
    then have "f \<le> ''.env''" by (intro le) (simp_all add: is_env_name_def)
    with f(1) 1 True show ?thesis by (auto simp: is_env_name_def)
  next
    case False
    show ?thesis
    proof (cases "''.env.example'' \<in> set files")
      case True
      then have "f \<le> ''.env.example''" by (intro le) (simp_all add: is_env_name_def)
      with f 1 True False show ?thesis by (auto simp: is_env_name_def)
    next
      case False
      with \<open>''.env'' \<notin> set files\<close> f show ?thesis by (auto simp: is_env_name_def)
    qed
  qed
qed

text \<open>
  C1 (amended). The env file is the first entry of the listing, in the order of the listing,
  that is named \<^verbatim>\<open>.env\<close>, \<^verbatim>\<open>.env.example\<close> or \<^verbatim>\<open>.env.production\<close>; when the listing is in
  ascending order of names this is the priority order \<^verbatim>\<open>.env\<close>, \<^verbatim>\<open>.env.example\<close>,
  \<^verbatim>\<open>.env.production\<close>. The keys are the trimmed text before the first \<^verbatim>\<open>=\<close> of each
  line of that file that is not blank, does not start with \<^verbatim>\<open>#\<close> and contains \<^verbatim>\<open>=\<close>.
\<close>

theorem C1_env_file_first_listed:
  assumes "detectProject parse d = Inr r"
  shows "(case envFile r of
            None \<Rightarrow> (\<forall>f \<in> set (listing d). \<not> is_env_name f) \<and> envKeys r = []
          | Some f \<Rightarrow>
              (\<exists>i < length (listing d). listing d ! i = f \<and> is_env_name f \<and>
                 (\<forall>j < i. \<not> is_env_name (listing d ! j))) \<and>
              (sorted (listing d) \<longrightarrow>
                 f = (if ''.env'' \<in> set (listing d) then ''.env''
                      else if ''.env.example'' \<in> set (listing d) then ''.env.example''
                      else ''.env.production'')) \<and>
              (\<exists>content. node_at d f = Some (File content) \<and>
                 envKeys r =
                   map (\<lambda>line. trim (takeWhile (\<lambda>c. c \<noteq> CHR ''='') line))
                     (filter (\<lambda>line. trim line \<noteq> [] \<and> \<not> prefix ''#'' line \<and> CHR ''='' \<in> set line)
                        (split content CHR 0x0A))))"
proof -
  from assms obtain r1 r2 r3 where
    st: "detect_env d (initial_result d) = Inr r1" "detect_language parse d r1 = Inr r2"
      "apply_defaults d r2 = Inr r3" "apply_port d r3 = Inr r"
    by (rule detectProject_stages)
  have same: "envFile r = envFile r1" "envKeys r = envKeys r1"
    using detect_language_env[OF st(2)] apply_defaults_env[OF st(3)] apply_port_env[OF st(4)]
    by simp_all
  show ?thesis
  proof (cases "find is_env_name (listing d)")
    case None
    with detect_env_None[OF st(1)] same show ?thesis
      by (auto simp: find_None_iff)
  next
    case (Some f)
    from detect_env_Some[OF st(1) Some] same
    have env: "envFile r = Some f"
      and keys: "\<exists>content. node_at d f = Some (File content) \<and>
            envKeys r = map (\<lambda>line. trim (takeWhile (\<lambda>c. c \<noteq> CHR ''='') line))
                          (filter (\<lambda>line. trim line \<noteq> [] \<and> \<not> prefix ''#'' line \<and> CHR ''='' \<in> set line)
                             (split content CHR 0x0A))"
      by simp_all
    from Some have first: "\<exists>i < length (listing d). listing d ! i = f \<and> is_env_name f \<and>
                 (\<forall>j < i. \<not> is_env_name (listing d ! j))"
      by (auto simp: find_Some_iff)
    from env first keys env_names_sorted[OF _ Some] show ?thesis
      by simp
  qed
qed

theorem C1_env_file_first_listed_witness:
  "detectProject sample_parse
     \<lparr>listing = [''.env'', ''.env.example'', ''requirements.txt''],
      node_at = [''.env'' \<mapsto> File ''# settings\<newline>SECRET_KEY = abc\<newline>\<newline>DEBUG=1'',
                 ''.env.example'' \<mapsto> File ''B=2'',
                 ''requirements.txt'' \<mapsto> File ''Flask==2.3'']\<rparr>
   = Inr \<lparr>type = Some Flask, language = Some Python, languageVersion = ''3.11'', port = 5000,
          buildCmd = '''', startCmd = ''gunicorn -w 4 -b 0.0.0.0:5000 app:app'',
          entryFile = ''app.py'', envFile = Some ''.env'', envKeys = [''SECRET_KEY'', ''DEBUG''],
          hasDocker = False, hasCI = False\<rparr>
   \<and> sorted [''.env'', ''.env.example'', ''requirements.txt'']" (is "?run \<and> ?sorted")
proof -
  have run: ?run by code_simp
  have ?sorted by simp
  with run C1_env_file_first_listed [OF run] show ?thesis by blast
qed

theorem C1_counterexample:
  "detectProject sample_parse
     \<lparr>listing = [''.env.example'', ''.env''],
      node_at = [''.env'' \<mapsto> File ''A=1'', ''.env.example'' \<mapsto> File ''B=2'']\<rparr>
   = Inr \<lparr>type = None, language = None, languageVersion = '''', port = 3000,
          buildCmd = '''', startCmd = '''', entryFile = '''',
          envFile = Some ''.env.example'', envKeys = [''B''],
          hasDocker = False, hasCI = False\<rparr>"
  by code_simp

lemma absent_outside_dom: "dom m = {k} \<Longrightarrow> p \<noteq> k \<Longrightarrow> m p = None"
  by (auto simp: dom_def)

text \<open>
  C2. A directory that holds only an archetype's marker file is detected as that archetype,
  with the port, the build command, the start command and the entry file of
  \<^verbatim>\<open>PROJECT_DEFAULTS\<close>.
\<close>

theorem C2_marker_defaults:
  assumes "m \<in> set (markers t)"
    and "listing d = [m]"
    and "dom (node_at d) = {m}"
    and "node_at d m = Some (File content)"
    and "names_framework parse t content props v"
  shows "detectProject parse d =
           Inr \<lparr>type = Some t,
                language = Some (if t \<in> {Flask, Django, Fastapi} then Python else Node),
                languageVersion = (if t \<in> {Flask, Django, Fastapi} then ''3.11'' else ''20''),
                port = dport (PROJECT_DEFAULTS t),
                buildCmd = dbuildCmd (PROJECT_DEFAULTS t),
                startCmd = dstartCmd (PROJECT_DEFAULTS t),
                entryFile = dentryFile (PROJECT_DEFAULTS t),
                envFile = None, envKeys = [], hasDocker = False, hasCI = False\<rparr>"
proof -
  note absent = absent_outside_dom [OF assms(3)]
  have m: "m = ''requirements.txt'' \<or> m = ''pyproject.toml'' \<or> m = ''package.json''"
    using assms(1) by (cases t) auto
  have init: "initial_result d =
      \<lparr>type = None, language = None, languageVersion = [], port = 3000, buildCmd = [],
       startCmd = [], entryFile = [], envFile = None, envKeys = [],
       hasDocker = False, hasCI = False\<rparr>"
    using assms(2) m absent [of "''.github/workflows''"]
    by (auto simp: initial_result_def existsSync_def)
  have env: "detect_env d r = Inr r" for r
    using assms(2) m by (auto simp: detect_env_def is_env_name_def)
  have port: "apply_port d r = Inr r" for r
  proof -
    have "scan_candidates d (candidates l) = Inr None" for l
    proof (cases l)
      case None
      then show ?thesis by simp
    next
      case (Some lang)
      then show ?thesis
        using absent m by (cases lang) (auto simp: existsSync_def)
    qed
    then show ?thesis by (simp add: apply_port_def detectPort_def)
  qed
  have no_run: "\<not> existsSync d ''run.py''"
    using absent [of "''run.py''"] m by (auto simp: existsSync_def)
  have defaults: "apply_defaults d r =
      Inr (r\<lparr>port := dport (PROJECT_DEFAULTS t), buildCmd := dbuildCmd (PROJECT_DEFAULTS t),
             startCmd := dstartCmd (PROJECT_DEFAULTS t),
             entryFile := dentryFile (PROJECT_DEFAULTS t)\<rparr>)"
    if "type r = Some t" for r
    using that no_run by (simp add: apply_defaults_def Let_def del: PROJECT_DEFAULTS.simps)
  have lang: "detect_language parse d r =
      Inr (r\<lparr>language := Some (if t \<in> {Flask, Django, Fastapi} then Python else Node),
             languageVersion := (if t \<in> {Flask, Django, Fastapi} then ''3.11'' else ''20''),
             type := Some t\<rparr>)" for r
    using assms(1,2,4,5)
    by (cases t)
      (auto simp: detect_language_def detectPythonFramework_def detectNodeFramework_def
        readFileSync_def existsSync_def depends_on_def map_add_def)
  show ?thesis
    by (simp add: detectProject_def init env lang defaults port del: PROJECT_DEFAULTS.simps)
qed

theorem C2_marker_defaults_witness:
  "detectProject sample_parse
     \<lparr>listing = [''requirements.txt''],
      node_at = [''requirements.txt'' \<mapsto> File ''Flask==2.3\<newline>gunicorn'']\<rparr>
   = Inr \<lparr>type = Some Flask, language = Some Python, languageVersion = ''3.11'', port = 5000,
          buildCmd = '''', startCmd = ''gunicorn -w 4 -b 0.0.0.0:5000 app:app'',
          entryFile = ''app.py'', envFile = None, envKeys = [],
          hasDocker = False, hasCI = False\<rparr>
   \<and> detectProject sample_parse
     \<lparr>listing = [''package.json''],
      node_at = [''package.json'' \<mapsto>
                   File ''{\"name\":\"shop\",\"dependencies\":{\"next\":\"^14.0.0\"}}'']\<rparr>
   = Inr \<lparr>type = Some Nextjs, language = Some Node, languageVersion = ''20'', port = 3000,
          buildCmd = ''npm run build'', startCmd = ''npm start'',
          entryFile = ''pages/index.tsx'', envFile = None, envKeys = [],
          hasDocker = False, hasCI = False\<rparr>"
proof -
  have flask: "names_framework sample_parse Flask ''Flask==2.3\<newline>gunicorn'' [] []"
    by code_simp
  have "next": "names_framework sample_parse Nextjs
      ''{\"name\":\"shop\",\"dependencies\":{\"next\":\"^14.0.0\"}}''
      [(''name'', JString ''shop''), (''dependencies'', JObject [(''next'', JString ''^14.0.0'')])]
      ''^14.0.0''"
    by (simp add: depends_on_def sample_parse_def)
  show ?thesis
    using
      C2_marker_defaults [OF _ _ _ _ flask, of "''requirements.txt''"
        "\<lparr>listing = [''requirements.txt''],
          node_at = [''requirements.txt'' \<mapsto> File ''Flask==2.3\<newline>gunicorn'']\<rparr>"]
      C2_marker_defaults [OF _ _ _ _ "next", of "''package.json''"
        "\<lparr>listing = [''package.json''],
          node_at = [''package.json'' \<mapsto>
                   File ''{\"name\":\"shop\",\"dependencies\":{\"next\":\"^14.0.0\"}}'']\<rparr>"]
    by simp
qed

section \<open>Which files the Python branch reads\<close>

lemma map_sum_id_Inl [simp]: "map_sum id f x = Inl e \<longleftrightarrow> x = Inl e"
  by (cases x) auto

lemma map_sum_id_Inr [simp]: "map_sum id f x = Inr y \<longleftrightarrow> (\<exists>c. x = Inr c \<and> y = f c)"
  by (cases x) auto

lemma readFileSync_error: "readFileSync d p = Inl e \<Longrightarrow> e = ENOENT \<or> e = EISDIR"
  by (auto simp: readFileSync_def split: option.splits node.splits)

lemma scan_candidates_error: "scan_candidates d cs = Inl e \<Longrightarrow> e = ENOENT \<or> e = EISDIR"
  by (induction cs) (auto split: if_splits sum.splits option.splits dest: readFileSync_error)

lemma detect_env_error: "detect_env d r = Inl e \<Longrightarrow> e = ENOENT \<or> e = EISDIR"
  by (auto simp: detect_env_def parseEnvKeys_def split: option.splits sum.splits
      dest: readFileSync_error)

lemma detectPythonFramework_error:
  "detectPythonFramework d files = Inl e \<Longrightarrow> e = ENOENT \<or> e = EISDIR"
  by (auto simp: detectPythonFramework_def split: if_splits sum.splits
      dest: readFileSync_error)

lemma apply_defaults_error: "apply_defaults d r = Inl e \<Longrightarrow> e = ENOENT \<or> e = EISDIR"
  by (auto simp: apply_defaults_def Let_def simp del: replace.simps
      split: option.splits if_splits sum.splits dest: readFileSync_error)

lemma apply_port_error: "apply_port d r = Inl e \<Longrightarrow> e = ENOENT \<or> e = EISDIR"
  by (auto simp: apply_port_def detectPort_def split: sum.splits option.splits
      dest: scan_candidates_error)

lemma detect_language_python:
  assumes "''requirements.txt'' \<in> set (listing d) \<or> ''pyproject.toml'' \<in> set (listing d)
           \<or> ''Pipfile'' \<in> set (listing d)"
  shows "detect_language parse d r =
           map_sum id (\<lambda>t. r\<lparr>language := Some Python, languageVersion := ''3.11'', type := t\<rparr>)
             (detectPythonFramework d (listing d))"
  using assms by (auto simp: detect_language_def Let_def split: sum.splits)

lemma apply_defaults_language:
  "apply_defaults d r = Inr r' \<Longrightarrow>
     language r' = language r \<and> languageVersion r' = languageVersion r \<and> type r' = type r"
  by (auto simp: apply_defaults_def Let_def simp del: replace.simps
      split: option.splits if_splits sum.splits)

lemma apply_port_language:
  "apply_port d r = Inr r' \<Longrightarrow>
     language r' = language r \<and> languageVersion r' = languageVersion r \<and> type r' = type r"
  by (auto simp: apply_port_def split: option.splits if_splits sum.splits)

text \<open>Replacing what is at one path changes nothing for a function that never asks for it.\<close>

lemma existsSync_other:
  "q \<noteq> p \<Longrightarrow> existsSync (d\<lparr>node_at := (node_at d)(q := n)\<rparr>) p = existsSync d p"
  by (simp add: existsSync_def)

lemma readFileSync_other:
  "q \<noteq> p \<Longrightarrow> readFileSync (d\<lparr>node_at := (node_at d)(q := n)\<rparr>) p = readFileSync d p"
  by (simp add: readFileSync_def)

lemma scan_candidates_other:
  "q \<notin> set cs \<Longrightarrow> scan_candidates (d\<lparr>node_at := (node_at d)(q := n)\<rparr>) cs = scan_candidates d cs"
  by (induction cs)
    (auto simp: existsSync_other readFileSync_other split: sum.splits option.splits)

lemma detect_env_other:
  assumes "\<not> is_env_name q"
  shows "detect_env (d\<lparr>node_at := (node_at d)(q := n)\<rparr>) r = detect_env d r"
proof (cases "find is_env_name (listing d)")
  case None
  then show ?thesis by (simp add: detect_env_def)
next
  case (Some f)
  then have "q \<noteq> f" using assms by (auto simp: find_Some_iff)
  with Some show ?thesis
    by (simp add: detect_env_def parseEnvKeys_def readFileSync_other)
qed

lemma detectPythonFramework_other:
  assumes "q \<noteq> ''requirements.txt''" "q \<noteq> ''pyproject.toml''"
  shows "detectPythonFramework (d\<lparr>node_at := (node_at d)(q := n)\<rparr>) files =
         detectPythonFramework d files"
  using assms by (simp add: detectPythonFramework_def readFileSync_other)

lemma apply_defaults_other:
  assumes "q \<noteq> ''run.py''"
  shows "apply_defaults (d\<lparr>node_at := (node_at d)(q := n)\<rparr>) r = apply_defaults d r"
  using assms
  by (auto simp: apply_defaults_def Let_def existsSync_other readFileSync_other
      simp del: replace.simps split: option.splits sum.splits)

lemma apply_port_other:
  assumes "q \<notin> set (candidates (language r))"
  shows "apply_port (d\<lparr>node_at := (node_at d)(q := n)\<rparr>) r = apply_port d r"
  using assms by (simp add: apply_port_def detectPort_def scan_candidates_other)

lemma initial_result_other:
  assumes "q \<noteq> ''.github/workflows''"
  shows "initial_result (d\<lparr>node_at := (node_at d)(q := n)\<rparr>) = initial_result d"
  using assms by (simp add: initial_result_def existsSync_other)

text \<open>Where nothing consulted is a directory and every listed name exists, nothing throws.\<close>

lemma readFileSync_regular:
  assumes "\<forall>p. node_at d p \<noteq> Some Dir" "node_at d p \<noteq> None"
  shows "\<exists>content. readFileSync d p = Inr content"
proof (cases "node_at d p")
  case None
  with assms(2) show ?thesis by simp
next
  case (Some nd)
  with assms(1) [rule_format, of p] show ?thesis
    by (cases nd) (simp_all add: readFileSync_def)
qed

lemma scan_candidates_regular:
  assumes "\<forall>p. node_at d p \<noteq> Some Dir"
  shows "\<exists>res. scan_candidates d cs = Inr res"
proof (induction cs)
  case Nil
  show ?case by simp
next
  case (Cons f fs)
  show ?case
  proof (cases "existsSync d f")
    case False
    with Cons show ?thesis by simp
  next
    case True
    then obtain content where "readFileSync d f = Inr content"
      using readFileSync_regular [OF assms] by (auto simp: existsSync_def)
    with True Cons show ?thesis
      by (cases "first_pattern portPatterns content") auto
  qed
qed

lemma python_branch_returns:
  assumes "''requirements.txt'' \<in> set (listing d) \<or> ''pyproject.toml'' \<in> set (listing d)
           \<or> ''Pipfile'' \<in> set (listing d)"
    and "\<forall>p. node_at d p \<noteq> Some Dir"
    and "\<forall>f \<in> set (listing d). node_at d f \<noteq> None"
  shows "\<exists>r. detectProject parse d = Inr r"
proof -
  note read = readFileSync_regular [OF assms(2)]
  have listed: "\<exists>content. readFileSync d f = Inr content" if "f \<in> set (listing d)" for f
    using read assms(3) that by blast
  obtain r1 where r1: "detect_env d (initial_result d) = Inr r1"
  proof (cases "find is_env_name (listing d)")
    case None
    then show ?thesis using that by (simp add: detect_env_def)
  next
    case (Some f)
    then have "f \<in> set (listing d)" by (auto simp: find_Some_iff)
    from listed [OF this] Some show ?thesis
      using that by (auto simp: detect_env_def parseEnvKeys_def)
  qed
  have "\<exists>t. detectPythonFramework d (listing d) = Inr t"
  proof (cases "''requirements.txt'' \<in> set (listing d)")
    case True
    with listed [OF True] show ?thesis
      by (auto simp: detectPythonFramework_def)
  next
    case False
    show ?thesis
    proof (cases "''pyproject.toml'' \<in> set (listing d)")
      case True
      with listed [OF True] False show ?thesis
        by (auto simp: detectPythonFramework_def)
    next
      case no_manifest: False
      with False show ?thesis
        by (simp add: detectPythonFramework_def)
    qed
  qed
  then obtain t where t: "detectPythonFramework d (listing d) = Inr t" ..
  then obtain r2 where r2: "detect_language parse d r1 = Inr r2"
    by (simp add: detect_language_python [OF assms(1)])
  have "\<exists>r3. apply_defaults d r2 = Inr r3"
  proof (cases "type r2 = Some Flask \<and> existsSync d ''run.py''")
    case True
    then obtain content where "readFileSync d ''run.py'' = Inr content"
      using read by (auto simp: existsSync_def)
    with True show ?thesis
      by (cases "includes_str content ''create_app''")
        (simp_all add: apply_defaults_def Let_def del: replace.simps PROJECT_DEFAULTS.simps)
  next
    case False
    then show ?thesis
      by (cases "type r2")
        (auto simp: apply_defaults_def Let_def simp del: replace.simps PROJECT_DEFAULTS.simps)
  qed
  then obtain r3 where r3: "apply_defaults d r2 = Inr r3" ..
  obtain res where "scan_candidates d (candidates (language r3)) = Inr res"
    using scan_candidates_regular [OF assms(2)] by blast
  then obtain r where "apply_port d r3 = Inr r"
    by (cases res) (auto simp: apply_port_def detectPort_def)
  with r1 r2 r3 show ?thesis
    by (simp add: detectProject_def)
qed

text \<open>
  C3. When the listing has a Python marker (\<^verbatim>\<open>requirements.txt\<close>, \<^verbatim>\<open>pyproject.toml\<close> or
  \<^verbatim>\<open>Pipfile\<close>), the project is classified on the Python branch, whether or not
  \<^verbatim>\<open>package.json\<close> is listed too: the result has language python and the archetype of
  the Python rules, and the only exceptions are those of reading a file; neither what is at
  \<^verbatim>\<open>package.json\<close> nor the JSON parser has any influence on the outcome; and there is a
  result whenever every listed name exists and no path is a directory.
\<close>

theorem C3_python_before_node:
  assumes "''requirements.txt'' \<in> set (listing d) \<or> ''pyproject.toml'' \<in> set (listing d)
           \<or> ''Pipfile'' \<in> set (listing d)"
  shows "(case detectProject parse d of
            Inl e \<Rightarrow> e = ENOENT \<or> e = EISDIR
          | Inr r \<Rightarrow> language r = Some Python \<and> languageVersion r = ''3.11'' \<and>
                     detectPythonFramework d (listing d) = Inr (type r))
         \<and> detectProject parse' (d\<lparr>node_at := (node_at d)(''package.json'' := n)\<rparr>)
             = detectProject parse d
         \<and> ((\<forall>p. node_at d p \<noteq> Some Dir) \<and> (\<forall>f \<in> set (listing d). node_at d f \<noteq> None) \<longrightarrow>
              (\<exists>r. detectProject parse d = Inr r))"
proof (intro conjI)
  show "(\<forall>p. node_at d p \<noteq> Some Dir) \<and> (\<forall>f \<in> set (listing d). node_at d f \<noteq> None) \<longrightarrow>
              (\<exists>r. detectProject parse d = Inr r)"
    using python_branch_returns [OF assms] by blast
next
  show "case detectProject parse d of
            Inl e \<Rightarrow> e = ENOENT \<or> e = EISDIR
          | Inr r \<Rightarrow> language r = Some Python \<and> languageVersion r = ''3.11'' \<and>
                     detectPythonFramework d (listing d) = Inr (type r)"
  proof (cases "detectProject parse d")
    case (Inl e)
    then have "e = ENOENT \<or> e = EISDIR"
      by (auto simp: detectProject_def detect_language_python [OF assms]
          split: sum.splits
          dest: detect_env_error detectPythonFramework_error apply_defaults_error
            apply_port_error)
    with Inl show ?thesis by simp
  next
    case (Inr r)
    then obtain r1 r2 r3 where
      st: "detect_env d (initial_result d) = Inr r1" "detect_language parse d r1 = Inr r2"
        "apply_defaults d r2 = Inr r3" "apply_port d r3 = Inr r"
      by (rule detectProject_stages)
    from st(2) obtain t where
      t: "detectPythonFramework d (listing d) = Inr t"
        "r2 = r1\<lparr>language := Some Python, languageVersion := ''3.11'', type := t\<rparr>"
      by (auto simp: detect_language_python [OF assms] split: sum.splits)
    from t(2) apply_defaults_language [OF st(3)] apply_port_language [OF st(4)]
    have "language r = Some Python" "languageVersion r = ''3.11''" "type r = t"
      by simp_all
    with t(1) Inr show ?thesis by simp
  qed
next
  let ?d = "d\<lparr>node_at := (node_at d)(''package.json'' := n)\<rparr>"
  have lang: "detect_language p ?d r = detect_language parse d r" for p r
    using assms
    by (simp add: detect_language_python [of ?d] detect_language_python [OF assms]
        detectPythonFramework_other)
  have port: "apply_port ?d r = apply_port d r" if "language r = Some Python" for r
    using that by (simp add: apply_port_other)
  have lang_py: "language r' = Some Python" if "detect_language parse d r = Inr r'" for r r'
    using that by (auto simp: detect_language_python [OF assms] split: sum.splits)
  show "detectProject parse' ?d = detectProject parse d"
    using lang_py
    by (auto simp: detectProject_def initial_result_other detect_env_other is_env_name_def
        lang apply_defaults_other port
        split: sum.splits dest!: apply_defaults_language)
qed

theorem C3_python_before_node_witness:
  "detectProject sample_parse
     \<lparr>listing = [''package.json'', ''requirements.txt''],
      node_at = [''package.json'' \<mapsto> File ''{\"name\":\"shop\",\"dependencies\":{\"next\":\"^14.0.0\"}}'',
                 ''requirements.txt'' \<mapsto> File ''Django==4.2'']\<rparr>
   = Inr \<lparr>type = Some Django, language = Some Python, languageVersion = ''3.11'', port = 8000,
          buildCmd = ''python manage.py collectstatic --noinput'',
          startCmd = ''gunicorn -w 4 -b 0.0.0.0:8000 config.wsgi:application'',
          entryFile = ''manage.py'', envFile = None, envKeys = [],
          hasDocker = False, hasCI = False\<rparr>" (is "?run")
proof -
  have run: ?run by code_simp
  have "''requirements.txt'' \<in> set [''package.json'', ''requirements.txt'']" by simp
  with run C3_python_before_node [of
      "\<lparr>listing = [''package.json'', ''requirements.txt''],
        node_at = [''package.json'' \<mapsto> File ''{\"name\":\"shop\",\"dependencies\":{\"next\":\"^14.0.0\"}}'',
                   ''requirements.txt'' \<mapsto> File ''Django==4.2'']\<rparr>" sample_parse]
  show ?thesis by blast
qed

section \<open>Python detection\<close>

lemma detectPythonFramework_requirements:
  assumes "''requirements.txt'' \<in> set files"
    and "node_at d ''requirements.txt'' = Some (File content)"
  shows "detectPythonFramework d files =
           Inr (if sublist ''fastapi'' (toLowerCase content) then Some Fastapi
                else if sublist ''django'' (toLowerCase content) then Some Django
                else if sublist ''flask'' (toLowerCase content) then Some Flask
                else if ''manage.py'' \<in> set files then Some Django
                else if ''app.py'' \<in> set files then Some Flask
                else if ''main.py'' \<in> set files then Some Fastapi
                else None)"
  using assms
  by (simp add: detectPythonFramework_def readFileSync_def includes_str_sublist)

text \<open>
  C4 (amended). With \<^verbatim>\<open>requirements.txt\<close> listed: when its content contains \<^verbatim>\<open>flask\<close>
  (in any mix of upper and lower case) and neither \<^verbatim>\<open>fastapi\<close> nor \<^verbatim>\<open>django\<close>, the
  archetype is flask, whatever else is listed (\<^verbatim>\<open>app.py\<close> or not); when it contains none of
  the three and \<^verbatim>\<open>manage.py\<close> is listed, the archetype is django.
\<close>

theorem C4_manifest_before_filenames:
  assumes "''requirements.txt'' \<in> set (listing d)"
    and "node_at d ''requirements.txt'' = Some (File content)"
  shows "(sublist ''flask'' (toLowerCase content) \<and> \<not> sublist ''fastapi'' (toLowerCase content)
            \<and> \<not> sublist ''django'' (toLowerCase content) \<longrightarrow>
            detectPythonFramework d (listing d) = Inr (Some Flask) \<and>
            (\<forall>r. detectProject parse d = Inr r \<longrightarrow> type r = Some Flask))
       \<and> (\<not> sublist ''flask'' (toLowerCase content) \<and> \<not> sublist ''fastapi'' (toLowerCase content)
            \<and> \<not> sublist ''django'' (toLowerCase content) \<and> ''manage.py'' \<in> set (listing d) \<longrightarrow>
            detectPythonFramework d (listing d) = Inr (Some Django) \<and>
            (\<forall>r. detectProject parse d = Inr r \<longrightarrow> type r = Some Django))"
proof -
  have project: "type r = t"
    if "detectPythonFramework d (listing d) = Inr t" "detectProject parse d = Inr r" for r t
  proof -
    from that(2) obtain r1 r2 r3 where
      st: "detect_env d (initial_result d) = Inr r1" "detect_language parse d r1 = Inr r2"
        "apply_defaults d r2 = Inr r3" "apply_port d r3 = Inr r"
      by (rule detectProject_stages)
    from st(2) assms(1) have "type r2 = t"
      by (auto simp: detect_language_python that(1))
    with apply_defaults_language [OF st(3)] apply_port_language [OF st(4)]
    show ?thesis by simp
  qed
  show ?thesis
    using detectPythonFramework_requirements [OF assms] project by auto
qed

theorem C4_manifest_before_filenames_witness:
  "sublist ''flask'' (toLowerCase ''Flask==2.3'')
   \<and> detectProject sample_parse
       \<lparr>listing = [''requirements.txt''],
        node_at = [''requirements.txt'' \<mapsto> File ''Flask==2.3'']\<rparr>
     = Inr \<lparr>type = Some Flask, language = Some Python, languageVersion = ''3.11'', port = 5000,
            buildCmd = '''', startCmd = ''gunicorn -w 4 -b 0.0.0.0:5000 app:app'',
            entryFile = ''app.py'', envFile = None, envKeys = [],
            hasDocker = False, hasCI = False\<rparr>
   \<and> \<not> sublist ''django'' (toLowerCase ''gunicorn'')
   \<and> detectPythonFramework
       \<lparr>listing = [''manage.py'', ''requirements.txt''],
        node_at = [''manage.py'' \<mapsto> File '''', ''requirements.txt'' \<mapsto> File ''gunicorn'']\<rparr>
       [''manage.py'', ''requirements.txt'']
     = Inr (Some Django)" (is "?flask \<and> ?run \<and> ?none \<and> ?django")
proof -
  have "?flask" "?none"
    unfolding includes_str_sublist [symmetric] by code_simp+
  moreover have ?run by code_simp
  moreover have ?django by code_simp
  ultimately show ?thesis
    using
      C4_manifest_before_filenames [of
        "\<lparr>listing = [''requirements.txt''],
          node_at = [''requirements.txt'' \<mapsto> File ''Flask==2.3'']\<rparr>" "''Flask==2.3''" sample_parse]
    by blast
qed

theorem C4_counterexample:
  "includes_str (toLowerCase ''django-environ\<newline>Flask==2.3'') ''flask''
   \<and> ''app.py'' \<notin> set [''requirements.txt'']
   \<and> detectProject sample_parse
       \<lparr>listing = [''requirements.txt''],
        node_at = [''requirements.txt'' \<mapsto> File ''django-environ\<newline>Flask==2.3'']\<rparr>
     = Inr \<lparr>type = Some Django, language = Some Python, languageVersion = ''3.11'', port = 8000,
            buildCmd = ''python manage.py collectstatic --noinput'',
            startCmd = ''gunicorn -w 4 -b 0.0.0.0:8000 config.wsgi:application'',
            entryFile = ''manage.py'', envFile = None, envKeys = [],
            hasDocker = False, hasCI = False\<rparr>"
  by code_simp

section \<open>The Flask application factory\<close>

lemma flask_factory_startCmd:
  "replace (dstartCmd (PROJECT_DEFAULTS Flask)) ''app:app'' ''run:app''
     = ''gunicorn -w 4 -b 0.0.0.0:5000 run:app''"
  by code_simp

lemma entryFile_not_run:
  "dentryFile (PROJECT_DEFAULTS t) \<noteq> ''run.py''" "''run.py'' \<noteq> dentryFile (PROJECT_DEFAULTS t)"
  by (cases t; simp)+

lemma detect_env_commands:
  "detect_env d r = Inr r' \<Longrightarrow>
     type r' = type r \<and> startCmd r' = startCmd r \<and> entryFile r' = entryFile r"
  by (auto simp: detect_env_def split: option.splits sum.splits)

lemma detect_language_commands:
  "detect_language parse d r = Inr r' \<Longrightarrow> startCmd r' = startCmd r \<and> entryFile r' = entryFile r"
  by (auto simp: detect_language_def Let_def split: if_splits sum.splits)

lemma apply_port_commands:
  "apply_port d r = Inr r' \<Longrightarrow> startCmd r' = startCmd r \<and> entryFile r' = entryFile r"
  by (auto simp: apply_port_def split: option.splits if_splits sum.splits)

lemma apply_defaults_commands:
  assumes "apply_defaults d r = Inr r'"
  shows "type r' = type r \<and>
         (if type r = Some Flask \<and>
             (\<exists>content. node_at d ''run.py'' = Some (File content) \<and> sublist ''create_app'' content)
          then startCmd r' = ''gunicorn -w 4 -b 0.0.0.0:5000 run:app'' \<and> entryFile r' = ''run.py''
          else startCmd r' = (case type r of None \<Rightarrow> startCmd r
                              | Some t \<Rightarrow> dstartCmd (PROJECT_DEFAULTS t)) \<and>
               entryFile r' = (case type r of None \<Rightarrow> entryFile r
                               | Some t \<Rightarrow> dentryFile (PROJECT_DEFAULTS t)))"
proof (cases "type r")
  case None
  with assms show ?thesis by (simp add: apply_defaults_def)
next
  case (Some t)
  show ?thesis
  proof (cases "t = Flask \<and> existsSync d ''run.py''")
    case False
    with assms Some show ?thesis
      by (auto simp: apply_defaults_def Let_def existsSync_def
          simp del: replace.simps PROJECT_DEFAULTS.simps)
  next
    case True
    with assms Some obtain content where
      content: "node_at d ''run.py'' = Some (File content)"
      by (auto simp: apply_defaults_def Let_def readFileSync_def existsSync_def
          simp del: replace.simps PROJECT_DEFAULTS.simps
          split: sum.splits option.splits node.splits)
    with assms Some True show ?thesis
      by (auto simp: apply_defaults_def Let_def readFileSync_def flask_factory_startCmd
          includes_str_sublist
          simp del: replace.simps PROJECT_DEFAULTS.simps split: if_splits)
  qed
qed

text \<open>
  C5. In a result of detectProject the start command targets \<^verbatim>\<open>run:app\<close> and the entry
  file is \<^verbatim>\<open>run.py\<close> exactly when the archetype is flask and \<^verbatim>\<open>run.py\<close> exists with a
  content that contains \<^verbatim>\<open>create_app\<close>; otherwise both are the defaults of the archetype
  (the empty strings when no archetype is detected).
\<close>

theorem C5_flask_factory:
  assumes "detectProject parse d = Inr r"
  shows "(if type r = Some Flask \<and> existsSync d ''run.py'' \<and>
            (\<exists>content. node_at d ''run.py'' = Some (File content) \<and> sublist ''create_app'' content)
          then startCmd r = ''gunicorn -w 4 -b 0.0.0.0:5000 run:app'' \<and> entryFile r = ''run.py''
          else startCmd r = (case type r of None \<Rightarrow> '''' | Some t \<Rightarrow> dstartCmd (PROJECT_DEFAULTS t)) \<and>
               entryFile r = (case type r of None \<Rightarrow> '''' | Some t \<Rightarrow> dentryFile (PROJECT_DEFAULTS t)) \<and>
               entryFile r \<noteq> ''run.py'')"
proof -
  from assms obtain r1 r2 r3 where
    st: "detect_env d (initial_result d) = Inr r1" "detect_language parse d r1 = Inr r2"
      "apply_defaults d r2 = Inr r3" "apply_port d r3 = Inr r"
    by (rule detectProject_stages)
  have r2: "startCmd r2 = ''''" "entryFile r2 = ''''"
    using detect_env_commands [OF st(1)] detect_language_commands [OF st(2)]
    by (simp_all add: initial_result_def)
  have r: "type r = type r2" "startCmd r = startCmd r3" "entryFile r = entryFile r3"
    using apply_defaults_language [OF st(3)] apply_port_language [OF st(4)]
      apply_port_commands [OF st(4)]
    by simp_all
  show ?thesis
    using apply_defaults_commands [OF st(3)] r r2
    by (auto simp: existsSync_def entryFile_not_run simp del: PROJECT_DEFAULTS.simps
        split: option.splits)
qed

theorem C5_flask_factory_witness:
  "detectProject sample_parse
     \<lparr>listing = [''requirements.txt'', ''run.py''],
      node_at = [''requirements.txt'' \<mapsto> File ''Flask==2.3'',
                 ''run.py'' \<mapsto> File ''from app import create_app\<newline>app = create_app()'']\<rparr>
   = Inr \<lparr>type = Some Flask, language = Some Python, languageVersion = ''3.11'', port = 5000,
          buildCmd = '''', startCmd = ''gunicorn -w 4 -b 0.0.0.0:5000 run:app'',
          entryFile = ''run.py'', envFile = None, envKeys = [],
          hasDocker = False, hasCI = False\<rparr>
   \<and> detectProject sample_parse
     \<lparr>listing = [''requirements.txt'', ''run.py''],
      node_at = [''requirements.txt'' \<mapsto> File ''Flask==2.3'',
                 ''run.py'' \<mapsto> File ''print(1)'']\<rparr>
   = Inr \<lparr>type = Some Flask, language = Some Python, languageVersion = ''3.11'', port = 5000,
          buildCmd = '''', startCmd = ''gunicorn -w 4 -b 0.0.0.0:5000 app:app'',
          entryFile = ''app.py'', envFile = None, envKeys = [],
          hasDocker = False, hasCI = False\<rparr>" (is "?factory \<and> ?plain")
proof -
  have factory: ?factory by code_simp
  have plain: ?plain by code_simp
  from factory plain C5_flask_factory [OF factory] C5_flask_factory [OF plain]
  show ?thesis by blast
qed

section \<open>The port scan\<close>

lemma first_pattern_index:
  assumes "k < length ps" "match content (ps ! k) = Some g"
    and "\<forall>k' < k. match content (ps ! k') = None"
  shows "first_pattern ps content = Some (parseInt g)"
  using assms
proof (induction ps arbitrary: k)
  case Nil
  then show ?case by simp
next
  case (Cons p ps)
  show ?case
  proof (cases k)
    case 0
    with Cons.prems show ?thesis by simp
  next
    case (Suc k')
    with Cons.prems have "match content p = None" by auto
    moreover have "first_pattern ps content = Some (parseInt g)"
      using Cons.prems Suc by (intro Cons.IH [of k']) auto
    ultimately show ?thesis by simp
  qed
qed

lemma scan_candidates_first:
  assumes "scan_candidates d cs = Inr res"
    and "i < length cs" "node_at d (cs ! i) = Some (File content)"
    and "\<forall>j < i. \<forall>c. node_at d (cs ! j) = Some (File c) \<longrightarrow> first_pattern portPatterns c = None"
    and "first_pattern portPatterns content = Some n"
  shows "res = Some n"
  using assms
proof (induction cs arbitrary: i)
  case Nil
  then show ?case by simp
next
  case (Cons f fs)
  show ?case
  proof (cases i)
    case 0
    with Cons.prems show ?thesis
      by (simp add: existsSync_def readFileSync_def)
  next
    case (Suc i')
    have skip: "scan_candidates d fs = Inr res"
    proof (cases "node_at d f")
      case None
      with Cons.prems(1) show ?thesis by (simp add: existsSync_def)
    next
      case (Some nd)
      show ?thesis
      proof (cases nd)
        case Dir
        with Some Cons.prems(1) show ?thesis
          by (simp add: existsSync_def readFileSync_def)
      next
        case (File c)
        with Some Cons.prems(4) Suc have "first_pattern portPatterns c = None"
          by force
        with Some File Cons.prems(1) show ?thesis
          by (simp add: existsSync_def readFileSync_def)
      qed
    qed
    show ?thesis
      using Cons.prems Suc by (intro Cons.IH [OF skip, of i']) auto
  qed
qed

lemma match_after:
  assumes "\<forall>t. t \<noteq> [] \<and> suffix t before \<longrightarrow> p (t @ s) = None"
  shows "match (before @ s) p = match s p"
  using assms
proof (induction before)
  case Nil
  then show ?case by simp
next
  case (Cons c before)
  have "p ((c # before) @ s) = None"
    using Cons.prems [rule_format, of "c # before"] by simp
  moreover have "match (before @ s) p = match s p"
    using Cons.prems by (intro Cons.IH) (auto simp: suffix_Cons)
  ultimately show ?case by simp
qed

lemma match_at_start: "p s = Some g \<Longrightarrow> match s p = Some g"
  by (cases s) simp_all

lemma pattern3_text: "pattern3 (''PORT = \"4500\"'' @ after) = Some ''4500''"
  by (simp add: pattern3_def after_spaces_def digits45_def is_space_def is_digit_def)

lemma parseInt_4500: "parseInt ''4500'' = 4500"
  by code_simp

lemma detect_env_port:
  "detect_env d r = Inr r' \<Longrightarrow> port r' = port r \<and> language r' = language r"
  by (auto simp: detect_env_def split: option.splits sum.splits)

lemma detect_language_port:
  "detect_language parse d r = Inr r' \<Longrightarrow> port r' = port r"
  by (auto simp: detect_language_def Let_def split: if_splits sum.splits)

lemma apply_defaults_port:
  "apply_defaults d r = Inr r' \<Longrightarrow>
     port r' = (case type r of None \<Rightarrow> port r | Some t \<Rightarrow> dport (PROJECT_DEFAULTS t))"
  by (auto simp: apply_defaults_def Let_def simp del: replace.simps PROJECT_DEFAULTS.simps
      split: option.splits if_splits sum.splits)

text \<open>
  C6 (amended). Take the first candidate file, in the listed order, in which a pattern
  matches, and the first of the three patterns, in their order, that matches in it. When the
  value of the digits it captures is not zero, it is the port of the result; when it is zero,
  the port stays the default of the archetype. In particular, when the first two patterns match
  nowhere in that file and the leftmost match of the third is the text
  \<^verbatim>\<open>PORT = "4500"\<close>, the port is 4500.
\<close>

theorem C6_first_match_overrides:
  assumes "detectProject parse d = Inr r"
    and "i < length (candidates (language r))"
    and "node_at d (candidates (language r) ! i) = Some (File content)"
    and "\<forall>j < i. \<forall>c. node_at d (candidates (language r) ! j) = Some (File c) \<longrightarrow>
           first_pattern portPatterns c = None"
  shows "(\<forall>k digits.
            k < length portPatterns \<and> match content (portPatterns ! k) = Some digits \<and>
            (\<forall>k' < k. match content (portPatterns ! k') = None) \<longrightarrow>
            port r = (if parseInt digits \<noteq> 0 then parseInt digits
                      else case type r of None \<Rightarrow> 3000 | Some t \<Rightarrow> dport (PROJECT_DEFAULTS t)))
       \<and> (\<forall>before after.
            content = before @ ''PORT = \"4500\"'' @ after \<and>
            match content pattern1 = None \<and> match content pattern2 = None \<and>
            (\<forall>t. t \<noteq> [] \<and> suffix t before \<longrightarrow> pattern3 (t @ ''PORT = \"4500\"'' @ after) = None) \<longrightarrow>
            port r = 4500)"
proof -
  from assms(1) obtain r1 r2 r3 where
    st: "detect_env d (initial_result d) = Inr r1" "detect_language parse d r1 = Inr r2"
      "apply_defaults d r2 = Inr r3" "apply_port d r3 = Inr r"
    by (rule detectProject_stages)
  have "port r2 = 3000"
    using detect_env_port [OF st(1)] detect_language_port [OF st(2)]
    by (simp add: initial_result_def)
  then have default: "port r3 = (case type r of None \<Rightarrow> 3000 | Some t \<Rightarrow> dport (PROJECT_DEFAULTS t))"
    using apply_defaults_port [OF st(3)] apply_defaults_language [OF st(3)]
      apply_port_language [OF st(4)]
    by (simp del: PROJECT_DEFAULTS.simps split: option.splits)
  have lang: "language r3 = language r"
    using apply_port_language [OF st(4)] by simp
  have rule: "port r = (if n \<noteq> 0 then n else port r3)"
    if "first_pattern portPatterns content = Some n" for n
  proof -
    from st(4) obtain res where
      res: "detectPort d (language r3) = Inr res" and
      r: "r = (case res of None \<Rightarrow> r3 | Some n \<Rightarrow> if n \<noteq> 0 then r3\<lparr>port := n\<rparr> else r3)"
      by (auto simp: apply_port_def split: sum.splits option.splits)
    from res have "scan_candidates d (candidates (language r)) = Inr res"
      unfolding detectPort_def lang .
    then have "res = Some n"
      using scan_candidates_first [OF _ assms(2,3,4) that] by blast
    with r show ?thesis
      by simp
  qed
  have general: "port r = (if parseInt digits \<noteq> 0 then parseInt digits
                    else case type r of None \<Rightarrow> 3000 | Some t \<Rightarrow> dport (PROJECT_DEFAULTS t))"
    if "k < length portPatterns" "match content (portPatterns ! k) = Some digits"
      "\<forall>k' < k. match content (portPatterns ! k') = None" for k digits
    using rule [OF first_pattern_index [OF that]] default by simp
  have quoted: "port r = 4500"
    if "content = before @ ''PORT = \"4500\"'' @ after"
      "match content pattern1 = None" "match content pattern2 = None"
      "\<forall>t. t \<noteq> [] \<and> suffix t before \<longrightarrow> pattern3 (t @ ''PORT = \"4500\"'' @ after) = None"
    for before after
  proof -
    have "match content pattern3 = Some ''4500''"
    proof -
      have "match content pattern3 = match (''PORT = \"4500\"'' @ after) pattern3"
        unfolding that(1) by (rule match_after [OF that(4)])
      also have "\<dots> = Some ''4500''"
        by (rule match_at_start [of pattern3, OF pattern3_text])
      finally show ?thesis .
    qed
    with that(2,3) have "first_pattern portPatterns content = Some (parseInt ''4500'')"
      by (simp add: portPatterns_def)
    from rule [OF this] show ?thesis
      by (simp add: parseInt_4500)
  qed
  show ?thesis
  proof (intro conjI allI impI)
    fix k digits
    assume "k < length portPatterns \<and> match content (portPatterns ! k) = Some digits \<and>
            (\<forall>k' < k. match content (portPatterns ! k') = None)"
    then show "port r = (if parseInt digits \<noteq> 0 then parseInt digits
                      else case type r of None \<Rightarrow> 3000 | Some t \<Rightarrow> dport (PROJECT_DEFAULTS t))"
      using general [of k digits] by blast
  next
    fix before after
    assume "content = before @ ''PORT = \"4500\"'' @ after \<and>
            match content pattern1 = None \<and> match content pattern2 = None \<and>
            (\<forall>t. t \<noteq> [] \<and> suffix t before \<longrightarrow> pattern3 (t @ ''PORT = \"4500\"'' @ after) = None)"
    then show "port r = 4500"
      using quoted [of before after] by blast
  qed
qed

theorem C6_first_match_overrides_witness:
  "detectProject sample_parse
     \<lparr>listing = [''app.py'', ''main.py'', ''requirements.txt''],
      node_at = [''app.py'' \<mapsto> File ''from flask import Flask'',
                 ''main.py'' \<mapsto> File ''import os\<newline>PORT = \"4500\"\<newline>'',
                 ''requirements.txt'' \<mapsto> File ''Flask==2.3'']\<rparr>
   = Inr \<lparr>type = Some Flask, language = Some Python, languageVersion = ''3.11'', port = 4500,
          buildCmd = '''', startCmd = ''gunicorn -w 4 -b 0.0.0.0:5000 app:app'',
          entryFile = ''app.py'', envFile = None, envKeys = [],
          hasDocker = False, hasCI = False\<rparr>
   \<and> candidates (Some Python) ! 1 = ''main.py''
   \<and> first_pattern portPatterns ''from flask import Flask'' = None
   \<and> match ''import os\<newline>PORT = \"4500\"\<newline>'' pattern1 = None
   \<and> match ''import os\<newline>PORT = \"4500\"\<newline>'' pattern2 = None
   \<and> match ''import os\<newline>PORT = \"4500\"\<newline>'' pattern3 = Some ''4500''"
  (is "?run \<and> ?cand \<and> ?earlier \<and> ?p1 \<and> ?p2 \<and> ?p3")
proof -
  let ?D = "\<lparr>listing = [''app.py'', ''main.py'', ''requirements.txt''],
      node_at = [''app.py'' \<mapsto> File ''from flask import Flask'',
                 ''main.py'' \<mapsto> File ''import os\<newline>PORT = \"4500\"\<newline>'',
                 ''requirements.txt'' \<mapsto> File ''Flask==2.3'']\<rparr>"
  let ?R = "\<lparr>type = Some Flask, language = Some Python, languageVersion = ''3.11'', port = 4500,
          buildCmd = [], startCmd = ''gunicorn -w 4 -b 0.0.0.0:5000 app:app'',
          entryFile = ''app.py'', envFile = None, envKeys = [],
          hasDocker = False, hasCI = False\<rparr>"
  let ?c = "''import os\<newline>PORT = \"4500\"\<newline>''"
  have run: ?run by code_simp
  have cand: ?cand by simp
  have earlier: ?earlier by code_simp
  have p: ?p1 ?p2 ?p3 by code_simp+
  have i: "1 < length (candidates (language ?R))" by simp
  have node: "node_at ?D (candidates (language ?R) ! 1) = Some (File ?c)" by simp
  have before: "\<forall>j < 1. \<forall>c. node_at ?D (candidates (language ?R) ! j) = Some (File c) \<longrightarrow>
      first_pattern portPatterns c = None"
    using earlier by (simp del: first_pattern.simps)
  have pats: "2 < length portPatterns \<and> match ?c (portPatterns ! 2) = Some ''4500'' \<and>
      (\<forall>k' < 2. match ?c (portPatterns ! k') = None)"
    using p by (simp add: portPatterns_def less_Suc_eq numeral_2_eq_2 del: match.simps)
  from C6_first_match_overrides [OF run i node before, THEN conjunct1, rule_format, OF pats]
  have "port ?R = (if parseInt ''4500'' \<noteq> 0 then parseInt ''4500''
                   else case type ?R of None \<Rightarrow> 3000 | Some t \<Rightarrow> dport (PROJECT_DEFAULTS t))" .
  with run cand earlier p show ?thesis by - (intro conjI, assumption+)
qed

theorem C6_counterexample:
  "includes_str ''port = 0000\<newline>PORT = \"4500\"'' ''PORT = \"4500\"''
   \<and> match ''port = 0000\<newline>PORT = \"4500\"'' pattern1 = Some ''0000''
   \<and> detectProject sample_parse
       \<lparr>listing = [''app.py'', ''requirements.txt''],
        node_at = [''app.py'' \<mapsto> File ''port = 0000\<newline>PORT = \"4500\"'',
                   ''requirements.txt'' \<mapsto> File ''Flask==2.3'']\<rparr>
     = Inr \<lparr>type = Some Flask, language = Some Python, languageVersion = ''3.11'', port = 5000,
            buildCmd = '''', startCmd = ''gunicorn -w 4 -b 0.0.0.0:5000 app:app'',
            entryFile = ''app.py'', envFile = None, envKeys = [],
            hasDocker = False, hasCI = False\<rparr>"
  by code_simp

section \<open>The store\<close>

lemma ensureDir_idem [simp]: "ensureDir (ensureDir s) = ensureDir s"
  by (simp add: ensureDir_def)

lemma config_file_ensureDir [simp]: "config_file (ensureDir s) = config_file s"
  by (simp add: ensureDir_def)

lemma loadGlobalConfig_ensureDir [simp]:
  "loadGlobalConfig (ensureDir s) = loadGlobalConfig s"
  by (simp add: loadGlobalConfig_def)

lemma snd_loadGlobalConfig [simp]: "snd (loadGlobalConfig s) = ensureDir s"
  by (simp add: loadGlobalConfig_def Let_def split: option.splits)

lemma saveServer_ensureDir [simp]: "saveServer name srv (ensureDir s) = saveServer name srv s"
  by (simp add: saveServer_def saveGlobalConfig_def case_prod_beta)

lemma getSavedServers_eq:
  "getSavedServers s = (servers (fst (loadGlobalConfig s)), ensureDir s)"
  by (simp add: getSavedServers_def case_prod_beta)

lemma config_file_saveServer:
  "config_file (saveServer name srv s) =
     Some ((fst (loadGlobalConfig s))
             \<lparr>servers := assign (servers (fst (loadGlobalConfig s))) name srv\<rparr>)"
  by (simp add: saveServer_def saveGlobalConfig_def case_prod_beta)

text \<open>
  What \<^verbatim>\<open>saveServer\<close> does for every label but \<^verbatim>\<open>__proto__\<close> (and for that one too when the
  stored map already has it): the label maps to the profile, the other labels and the project
  history are as before.
\<close>

lemma saveServer_ordinary_label:
  assumes "name \<noteq> ''__proto__'' \<or> servers (fst (loadGlobalConfig s)) ''__proto__'' \<noteq> None"
  shows "\<exists>config. config_file (saveServer name srv s) = Some config \<and>
           servers config name = Some srv \<and>
           (\<forall>other. other \<noteq> name \<longrightarrow>
              servers config other = servers (fst (loadGlobalConfig s)) other) \<and>
           projects config = projects (fst (loadGlobalConfig s))"
  using assms by (auto simp: config_file_saveServer assign_def)

text \<open>
  C9 (the code at the failing input). Saving a profile under the label \<^verbatim>\<open>__proto__\<close> in a
  store that has no such label leaves the stored map without that label: the profile is not
  saved.
\<close>

theorem C9_saveServer_proto_not_saved:
  "saveServer ''__proto__''
     \<lparr>host = ''203.0.113.7'', user = ''root'', sshKeyPath = ''~/.ssh/id_rsa'',
      deployDir = ''/opt/apps''\<rparr>
     \<lparr>config_dir = True,
      config_file = Some \<lparr>servers = Map.empty, projects = Map.empty\<rparr>\<rparr>
   = \<lparr>config_dir = True,
      config_file = Some \<lparr>servers = Map.empty, projects = Map.empty\<rparr>\<rparr>"
  by (simp add: saveServer_def loadGlobalConfig_def saveGlobalConfig_def ensureDir_def
      assign_def)

section \<open>The prompts\<close>

lemma prompt_input_Text [simp]:
  "script w = Text v # rest \<Longrightarrow> prompt_input w = Some (v, w\<lparr>script := rest\<rparr>)"
  by (simp add: prompt_input_def)

lemma prompt_list_Choice [simp]:
  "script w = Choice c # rest \<Longrightarrow> prompt_list w = Some (c, w\<lparr>script := rest\<rparr>)"
  by (simp add: prompt_list_def)

lemma prompt_validated_Text [simp]:
  "script w = Text v # rest \<Longrightarrow> validate v \<Longrightarrow>
     prompt_validated validate w = Some (v, w\<lparr>script := rest\<rparr>)"
  by (simp add: prompt_validated_def)

lemma prompt_validated_disk:
  "prompt_validated validate w = Some (v, w') \<Longrightarrow> disk w' = disk w"
  by (auto simp: prompt_validated_def split: option.splits)

lemma prompt_input_disk: "prompt_input w = Some (v, w') \<Longrightarrow> disk w' = disk w"
  by (auto simp: prompt_input_def split: list.splits answer.splits)

lemma prompt_number_disk: "prompt_number w = Some (v, w') \<Longrightarrow> disk w' = disk w"
  by (auto simp: prompt_number_def split: list.splits answer.splits)

lemma prompt_confirm_disk: "prompt_confirm w = Some (v, w') \<Longrightarrow> disk w' = disk w"
  by (auto simp: prompt_confirm_def split: list.splits answer.splits)

lemma prompt_list_disk: "prompt_list w = Some (v, w') \<Longrightarrow> disk w' = disk w"
  by (auto simp: prompt_list_def split: list.splits answer.splits)

lemma prompt_checkbox_disk: "prompt_checkbox cs w = Some (v, w') \<Longrightarrow> disk w' = disk w"
  by (auto simp: prompt_checkbox_def split: list.splits answer.splits if_splits)

lemma collectProjectConfig_disk:
  "collectProjectConfig detection n w = Some (p, w') \<Longrightarrow> disk w' = disk w"
  by (auto simp: collectProjectConfig_def split: option.splits prod.splits
      dest!: prompt_validated_disk prompt_input_disk prompt_number_disk prompt_list_disk)

lemma collectDomainConfig_disk:
  "collectDomainConfig w = Some (dm, w') \<Longrightarrow> disk w' = disk w"
  by (auto simp: collectDomainConfig_def split: option.splits prod.splits if_splits
      dest!: prompt_validated_disk prompt_confirm_disk)

lemma collectSecrets_disk:
  "collectSecrets keys w = Some (sec, w') \<Longrightarrow> disk w' = disk w"
  by (auto simp: collectSecrets_def split: if_splits dest!: prompt_checkbox_disk)

lemma collectBranchConfig_disk:
  "collectBranchConfig w = Some (br, w') \<Longrightarrow> disk w' = disk w"
  by (auto simp: collectBranchConfig_def split: option.splits prod.splits if_splits
      dest!: prompt_input_disk prompt_confirm_disk)

section \<open>collect-server\<close>

lemma new_server_script:
  assumes "script w = Text h # Text u # Text k # Text dir # Text label # rest"
    and "not_blank h"
  shows "new_server w =
           Some (\<lparr>host = h, user = u, sshKeyPath = k, deployDir = dir\<rparr>,
                 w\<lparr>disk := saveServer label
                             \<lparr>host = h, user = u, sshKeyPath = k, deployDir = dir\<rparr> (disk w),
                   script := rest\<rparr>)"
  using assms by (simp add: new_server_def Let_def)

lemma collectServerConfig_existing:
  assumes "servers (fst (loadGlobalConfig (disk w))) label = Some profile"
    and "label \<noteq> ''__new__''"
    and "script w = Choice label # Text dir # rest"
  shows "collectServerConfig w =
           Some (profile\<lparr>deployDir := dir\<rparr>, w\<lparr>disk := ensureDir (disk w), script := rest\<rparr>)"
proof -
  have "dom (servers (fst (loadGlobalConfig (disk w)))) \<noteq> {}"
    using assms(1) by auto
  with assms show ?thesis
    by (simp add: collectServerConfig_def getSavedServers_eq)
qed

lemma collectServerConfig_new:
  assumes "script w = pick_new @ [Text h, Text u, Text k, Text dir, Text label] @ rest"
    and "pick_new = (if dom (servers (fst (loadGlobalConfig (disk w)))) = {} then []
                     else [Choice ''__new__''])"
    and "not_blank h"
  shows "collectServerConfig w =
           Some (\<lparr>host = h, user = u, sshKeyPath = k, deployDir = dir\<rparr>,
                 w\<lparr>disk := saveServer label
                             \<lparr>host = h, user = u, sshKeyPath = k, deployDir = dir\<rparr> (disk w),
                   script := rest\<rparr>)"
proof (cases "dom (servers (fst (loadGlobalConfig (disk w)))) = {}")
  case True
  with assms have "script (w\<lparr>disk := ensureDir (disk w)\<rparr>)
      = Text h # Text u # Text k # Text dir # Text label # rest"
    by simp
  from new_server_script [OF this assms(3)] True show ?thesis
    by (simp add: collectServerConfig_def getSavedServers_eq)
next
  case False
  with assms have "script (w\<lparr>disk := ensureDir (disk w), script := tl (script w)\<rparr>)
      = Text h # Text u # Text k # Text dir # Text label # rest"
    and "script w = Choice ''__new__'' # tl (script w)"
    by simp_all
  from new_server_script [OF this(1) assms(3)] this(2) False show ?thesis
    by (simp add: collectServerConfig_def getSavedServers_eq)
qed

text \<open>
  C10. Choosing a saved profile and giving another deploy directory returns the profile with
  that directory and writes nothing: the configuration file of the store is the one from
  before, and in it the label still has the profile with its original deploy directory.
\<close>

theorem C10_existing_profile_not_saved:
  assumes "config_file (disk w) = Some config"
    and "servers config label = Some profile"
    and "label \<noteq> ''__new__''"
    and "script w = Choice label # Text dir # rest"
  shows "\<exists>w'. collectServerConfig w = Some (profile\<lparr>deployDir := dir\<rparr>, w') \<and>
              script w' = rest \<and>
              config_file (disk w') = config_file (disk w) \<and>
              (\<exists>stored. config_file (disk w') = Some stored \<and>
                 servers stored label = Some profile)"
proof -
  have "servers (fst (loadGlobalConfig (disk w))) label = Some profile"
    using assms(1,2) by (simp add: loadGlobalConfig_def)
  from collectServerConfig_existing [OF this assms(3,4)] assms(1,2) show ?thesis
    by simp
qed

theorem C10_existing_profile_not_saved_witness:
  "collectServerConfig
     \<lparr>disk = \<lparr>config_dir = True,
              config_file = Some \<lparr>servers = [''prod'' \<mapsto>
                  \<lparr>host = ''203.0.113.7'', user = ''root'', sshKeyPath = ''~/.ssh/id_rsa'',
                   deployDir = ''/opt/apps''\<rparr>], projects = Map.empty\<rparr>\<rparr>,
      script = [Choice ''prod'', Text ''/srv/www'']\<rparr>
   = Some (\<lparr>host = ''203.0.113.7'', user = ''root'', sshKeyPath = ''~/.ssh/id_rsa'',
            deployDir = ''/srv/www''\<rparr>,
           \<lparr>disk = \<lparr>config_dir = True,
              config_file = Some \<lparr>servers = [''prod'' \<mapsto>
                  \<lparr>host = ''203.0.113.7'', user = ''root'', sshKeyPath = ''~/.ssh/id_rsa'',
                   deployDir = ''/opt/apps''\<rparr>], projects = Map.empty\<rparr>\<rparr>,
            script = []\<rparr>)" (is "collectServerConfig ?w = Some (?srv, ?w')")
proof -
  let ?profile = "\<lparr>host = ''203.0.113.7'', user = ''root'', sshKeyPath = ''~/.ssh/id_rsa'',
                   deployDir = ''/opt/apps''\<rparr>"
  let ?config = "\<lparr>servers = [''prod'' \<mapsto> ?profile], projects = Map.empty\<rparr>"
  have stored: "config_file (disk ?w) = Some ?config" by simp
  have saved: "servers ?config ''prod'' = Some ?profile" by simp
  have label: "''prod'' \<noteq> ''__new__''" by simp
  have answers: "script ?w = Choice ''prod'' # Text ''/srv/www'' # []" by simp
  from C10_existing_profile_not_saved [OF stored saved label answers]
  obtain w' where w': "collectServerConfig ?w = Some (?profile\<lparr>deployDir := ''/srv/www''\<rparr>, w')"
    "script w' = []" "config_file (disk w') = config_file (disk ?w)"
    by blast
  have "collectServerConfig ?w = Some (?srv, ?w')"
    by (simp add: collectServerConfig_def getSavedServers_def loadGlobalConfig_def
        ensureDir_def prompt_list_def prompt_input_def)
  with w' show ?thesis by simp
qed

section \<open>The review loop\<close>

lemma reviewLoop_confirm:
  "script w = Choice ''confirm'' # rest \<Longrightarrow>
     reviewLoop config detection w = Return config (w\<lparr>script := rest\<rparr>)"
  by (subst reviewLoop.simps) simp

lemma reviewLoop_cancel:
  "script w = Choice ''cancel'' # rest \<Longrightarrow>
     reviewLoop config detection w = Exit 0 (w\<lparr>script := rest\<rparr>)"
  by (subst reviewLoop.simps) simp

lemma reviewLoop_frame:
  "reviewLoop config detection w = Return config' w' \<Longrightarrow>
     secrets config' = secrets config \<and> branches config' = branches config \<and>
     registry config' = registry config"
proof (induction config detection w rule: reviewLoop.induct)
  case (1 config detection w)
  from "1.prems" show ?case
    by (subst (asm) reviewLoop.simps)
      (auto split: option.splits prod.splits if_splits dest!: "1.IH" [rotated -1])
qed

text \<open>
  C7. In the review loop, the answers edit-server, the answers of collect-server, confirm
  return the configuration with the server section just collected and every other section as
  it was. Whatever the answers, a configuration that the loop returns has the secrets, the
  branches and the registry it started with.
\<close>

theorem C7_edit_server_then_confirm:
  assumes "script w = Choice ''server'' # answers"
    and "collectServerConfig (w\<lparr>script := answers\<rparr>) = Some (srv, w')"
    and "script w' = Choice ''confirm'' # rest"
  shows "reviewLoop config detection w =
           Return \<lparr>project = project config, server = srv, domain = domain config,
                   secrets = secrets config, branches = branches config,
                   registry = registry config\<rparr>
                  (w'\<lparr>script := rest\<rparr>)
         \<and> (\<forall>config0 detection0 w0 config1 w1.
               reviewLoop config0 detection0 w0 = Return config1 w1 \<longrightarrow>
               secrets config1 = secrets config0 \<and> branches config1 = branches config0 \<and>
               registry config1 = registry config0)"
proof
  have "reviewLoop config detection w = reviewLoop (config\<lparr>server := srv\<rparr>) detection w'"
    using assms(1,2) by (subst reviewLoop.simps) simp
  also have "\<dots> = Return (config\<lparr>server := srv\<rparr>) (w'\<lparr>script := rest\<rparr>)"
    using assms(3) by (rule reviewLoop_confirm)
  finally show "reviewLoop config detection w =
           Return \<lparr>project = project config, server = srv, domain = domain config,
                   secrets = secrets config, branches = branches config,
                   registry = registry config\<rparr>
                  (w'\<lparr>script := rest\<rparr>)"
    by (cases config) simp
next
  show "\<forall>config0 detection0 w0 config1 w1.
               reviewLoop config0 detection0 w0 = Return config1 w1 \<longrightarrow>
               secrets config1 = secrets config0 \<and> branches config1 = branches config0 \<and>
               registry config1 = registry config0"
    using reviewLoop_frame by blast
qed

theorem C7_edit_server_then_confirm_witness:
  "reviewLoop
     \<lparr>project = \<lparr>project_name = ''shop'', project_type = Flask, project_port = 5000,
                  project_buildCmd = '''',
                  project_startCmd = ''gunicorn -w 4 -b 0.0.0.0:5000 app:app'',
                  project_language = Python\<rparr>,
      server = \<lparr>host = ''203.0.113.7'', user = ''root'', sshKeyPath = ''~/.ssh/id_rsa'',
                 deployDir = ''/opt/apps''\<rparr>,
      domain = \<lparr>enabled = True, domain_name = ''shop.example.org'', https = True\<rparr>,
      secrets = [''SECRET_KEY''],
      branches = \<lparr>production = ''main'', staging = Some ''develop''\<rparr>,
      registry = ''ghcr.io''\<rparr>
     \<lparr>type = Some Flask, language = Some Python, languageVersion = ''3.11'', port = 5000,
      buildCmd = '''', startCmd = ''gunicorn -w 4 -b 0.0.0.0:5000 app:app'',
      entryFile = ''app.py'', envFile = Some ''.env'', envKeys = [''SECRET_KEY'', ''DEBUG''],
      hasDocker = False, hasCI = False\<rparr>
     \<lparr>disk = \<lparr>config_dir = True,
              config_file = Some \<lparr>servers = [''prod'' \<mapsto>
                  \<lparr>host = ''203.0.113.7'', user = ''root'', sshKeyPath = ''~/.ssh/id_rsa'',
                   deployDir = ''/opt/apps''\<rparr>], projects = Map.empty\<rparr>\<rparr>,
      script = [Choice ''server'', Choice ''prod'', Text ''/srv/www'', Choice ''confirm'']\<rparr>
   = Return
     \<lparr>project = \<lparr>project_name = ''shop'', project_type = Flask, project_port = 5000,
                  project_buildCmd = '''',
                  project_startCmd = ''gunicorn -w 4 -b 0.0.0.0:5000 app:app'',
                  project_language = Python\<rparr>,
      server = \<lparr>host = ''203.0.113.7'', user = ''root'', sshKeyPath = ''~/.ssh/id_rsa'',
                 deployDir = ''/srv/www''\<rparr>,
      domain = \<lparr>enabled = True, domain_name = ''shop.example.org'', https = True\<rparr>,
      secrets = [''SECRET_KEY''],
      branches = \<lparr>production = ''main'', staging = Some ''develop''\<rparr>,
      registry = ''ghcr.io''\<rparr>
     \<lparr>disk = \<lparr>config_dir = True,
              config_file = Some \<lparr>servers = [''prod'' \<mapsto>
                  \<lparr>host = ''203.0.113.7'', user = ''root'', sshKeyPath = ''~/.ssh/id_rsa'',
                   deployDir = ''/opt/apps''\<rparr>], projects = Map.empty\<rparr>\<rparr>,
      script = []\<rparr>"
  (is "reviewLoop ?config ?detection ?w = Return ?config' ?w'")
proof -
  let ?w1 = "?w\<lparr>script := [Choice ''prod'', Text ''/srv/www'', Choice ''confirm'']\<rparr>"
  let ?w2 = "?w\<lparr>script := [Choice ''confirm'']\<rparr>"
  have edit: "script ?w = Choice ''server'' # [Choice ''prod'', Text ''/srv/www'', Choice ''confirm'']"
    by simp
  have collect: "collectServerConfig ?w1 = Some (server ?config', ?w2)"
    by (simp add: collectServerConfig_def getSavedServers_def loadGlobalConfig_def
        ensureDir_def prompt_list_def prompt_input_def)
  have confirm: "script ?w2 = Choice ''confirm'' # []"
    by simp
  from C7_edit_server_then_confirm [OF edit collect confirm, of ?config ?detection]
  show ?thesis by simp
qed

text \<open>
  The new-profile path followed by cancel, for every label. Collect-server saves the profile
  under the label given, there and then. When the operator then answers the remaining steps
  and cancels at the first review, the process exits with code 0: no configuration is
  returned, and the store is the one that \<^verbatim>\<open>saveServer\<close> left, so that for a label other
  than \<^verbatim>\<open>__proto__\<close> the configuration file maps the label to the new profile.
\<close>

lemma new_profile_saved_before_cancel:
  assumes "collectProjectConfig detection projectName w = Some (p, w1)"
    and "script w1 = pick_new @ [Text h, Text u, Text k, Text dir, Text label] @ answers"
    and "pick_new = (if dom (servers (fst (loadGlobalConfig (disk w1)))) = {} then []
                     else [Choice ''__new__''])"
    and "not_blank h"
    and "profile = \<lparr>host = h, user = u, sshKeyPath = k, deployDir = dir\<rparr>"
    and "w2 = w1\<lparr>disk := saveServer label profile (disk w1), script := answers\<rparr>"
    and "collectDomainConfig w2 = Some (dm, w3)"
    and "collectSecrets (envKeys detection) w3 = Some (sec, w4)"
    and "collectBranchConfig w4 = Some (br, w5)"
    and "script w5 = Choice ''cancel'' # rest"
  shows "collectServerConfig w1 = Some (profile, w2)
       \<and> collectConfig detection projectName w = Exit 0 (w5\<lparr>script := rest\<rparr>)
       \<and> disk w5 = saveServer label profile (disk w)
       \<and> (label \<noteq> ''__proto__'' \<longrightarrow>
            (\<exists>config. config_file (disk w5) = Some config \<and> servers config label = Some profile))"
proof -
  have server: "collectServerConfig w1 = Some (profile, w2)"
    unfolding assms(5,6) using assms(2,3,4) by (rule collectServerConfig_new)
  have "reviewLoop \<lparr>project = p, server = profile, domain = dm, secrets = sec, branches = br,
                    registry = ''ghcr.io''\<rparr> detection w5 = Exit 0 (w5\<lparr>script := rest\<rparr>)"
    using assms(10) by (rule reviewLoop_cancel)
  with assms(1,7,8,9) server
  have cancel: "collectConfig detection projectName w = Exit 0 (w5\<lparr>script := rest\<rparr>)"
    by (simp add: collectConfig_def)
  have "disk w5 = disk w2"
    using collectDomainConfig_disk [OF assms(7)] collectSecrets_disk [OF assms(8)]
      collectBranchConfig_disk [OF assms(9)]
    by simp
  then have disk: "disk w5 = saveServer label profile (disk w)"
    using collectProjectConfig_disk [OF assms(1)] assms(6) by simp
  have "\<exists>config. config_file (disk w5) = Some config \<and> servers config label = Some profile"
    if "label \<noteq> ''__proto__''"
    using saveServer_ordinary_label [of label "disk w" profile] that disk by auto
  with server cancel disk show ?thesis by blast
qed

lemma new_profile_saved_before_cancel_example:
  "collectConfig
     \<lparr>type = Some Flask, language = Some Python, languageVersion = ''3.11'', port = 5000,
      buildCmd = '''', startCmd = ''gunicorn -w 4 -b 0.0.0.0:5000 app:app'',
      entryFile = ''app.py'', envFile = Some ''.env'', envKeys = [''SECRET_KEY'', ''DEBUG''],
      hasDocker = False, hasCI = False\<rparr>
     ''shop''
     \<lparr>disk = \<lparr>config_dir = False, config_file = None\<rparr>,
      script = [Text ''shop'', Choice ''flask'', Number 5000, Text '''',
                Text ''gunicorn -w 4 -b 0.0.0.0:5000 app:app'',
                Text ''203.0.113.7'', Text ''root'', Text ''~/.ssh/id_rsa'', Text ''/opt/apps'',
                Text ''prod'',
                Confirm False, Checked [''SECRET_KEY''], Text ''main'', Confirm False,
                Choice ''cancel'']\<rparr>
   = Exit 0
       \<lparr>disk = \<lparr>config_dir = True,
                config_file = Some \<lparr>servers = [''prod'' \<mapsto>
                    \<lparr>host = ''203.0.113.7'', user = ''root'', sshKeyPath = ''~/.ssh/id_rsa'',
                     deployDir = ''/opt/apps''\<rparr>], projects = Map.empty\<rparr>\<rparr>,
        script = []\<rparr>"
  (is "collectConfig ?detection ''shop'' ?w = Exit 0 ?end")
proof -
  let ?profile = "\<lparr>host = ''203.0.113.7'', user = ''root'', sshKeyPath = ''~/.ssh/id_rsa'',
                   deployDir = ''/opt/apps''\<rparr>"
  let ?p = "\<lparr>project_name = ''shop'', project_type = Flask, project_port = 5000,
             project_buildCmd = '''',
             project_startCmd = ''gunicorn -w 4 -b 0.0.0.0:5000 app:app'',
             project_language = Python\<rparr>"
  let ?after_server = "[Confirm False, Checked [''SECRET_KEY''], Text ''main'', Confirm False,
                        Choice ''cancel'']"
  let ?w1 = "?w\<lparr>script := [Text ''203.0.113.7'', Text ''root'', Text ''~/.ssh/id_rsa'',
                             Text ''/opt/apps'', Text ''prod''] @ ?after_server\<rparr>"
  let ?w2 = "?w1\<lparr>disk := saveServer ''prod'' ?profile (disk ?w1), script := ?after_server\<rparr>"
  let ?w3 = "?w2\<lparr>script := [Checked [''SECRET_KEY''], Text ''main'', Confirm False,
                              Choice ''cancel'']\<rparr>"
  let ?w4 = "?w2\<lparr>script := [Text ''main'', Confirm False, Choice ''cancel'']\<rparr>"
  let ?w5 = "?w2\<lparr>script := [Choice ''cancel'']\<rparr>"
  have name: "valid_name ''shop''" by code_simp
  have project: "collectProjectConfig ?detection ''shop'' ?w = Some (?p, ?w1)"
    using name
    by (simp add: collectProjectConfig_def prompt_list_def prompt_number_def prompt_input_def)
  have answers: "script ?w1 = [] @ [Text ''203.0.113.7'', Text ''root'', Text ''~/.ssh/id_rsa'',
                             Text ''/opt/apps'', Text ''prod''] @ ?after_server"
    by simp
  have none_saved: "[] = (if dom (servers (fst (loadGlobalConfig (disk ?w1)))) = {} then []
                     else [Choice ''__new__''])"
    by (simp add: loadGlobalConfig_def)
  have host: "not_blank ''203.0.113.7''" by code_simp
  have declined: "collectDomainConfig ?w2 =
      Some (\<lparr>enabled = False, domain_name = '''', https = False\<rparr>, ?w3)"
    by (simp add: collectDomainConfig_def prompt_confirm_def)
  have checked: "collectSecrets (envKeys ?detection) ?w3 = Some ([''SECRET_KEY''], ?w4)"
    by (simp add: collectSecrets_def prompt_checkbox_def)
  have branch: "collectBranchConfig ?w4 = Some (\<lparr>production = ''main'', staging = None\<rparr>, ?w5)"
    by (simp add: collectBranchConfig_def prompt_input_def prompt_confirm_def)
  have cancel: "script ?w5 = Choice ''cancel'' # []" by simp
  have "collectConfig ?detection ''shop'' ?w = Exit 0 (?w5\<lparr>script := []\<rparr>)"
    using new_profile_saved_before_cancel
      [OF project answers none_saved host refl refl declined checked branch cancel]
    by blast
  also have "?w5\<lparr>script := []\<rparr> = ?end"
    by (simp add: saveServer_def loadGlobalConfig_def saveGlobalConfig_def ensureDir_def
        assign_def)
  finally show ?thesis .
qed

text \<open>
  C8 (the code at the failing input). A new profile entered under the label \<^verbatim>\<open>__proto__\<close>,
  the remaining steps answered, and cancel at the first review: the process exits with code 0
  and the store, which had no configuration file, now has one whose server map is empty. The
  profile entered is not in the store.
\<close>

theorem C8_cancel_after_proto_label:
  "collectConfig
     \<lparr>type = Some Flask, language = Some Python, languageVersion = ''3.11'', port = 5000,
      buildCmd = '''', startCmd = ''gunicorn -w 4 -b 0.0.0.0:5000 app:app'',
      entryFile = ''app.py'', envFile = Some ''.env'', envKeys = [''SECRET_KEY'', ''DEBUG''],
      hasDocker = False, hasCI = False\<rparr>
     ''shop''
     \<lparr>disk = \<lparr>config_dir = False, config_file = None\<rparr>,
      script = [Text ''shop'', Choice ''flask'', Number 5000, Text '''',
                Text ''gunicorn -w 4 -b 0.0.0.0:5000 app:app'',
                Text ''203.0.113.7'', Text ''root'', Text ''~/.ssh/id_rsa'', Text ''/opt/apps'',
                Text ''__proto__'',
                Confirm False, Checked [''SECRET_KEY''], Text ''main'', Confirm False,
                Choice ''cancel'']\<rparr>
   = Exit 0
       \<lparr>disk = \<lparr>config_dir = True,
                config_file = Some \<lparr>servers = Map.empty, projects = Map.empty\<rparr>\<rparr>,
        script = []\<rparr>"
  (is "collectConfig ?detection ''shop'' ?w = Exit 0 ?end")
proof -
  let ?profile = "\<lparr>host = ''203.0.113.7'', user = ''root'', sshKeyPath = ''~/.ssh/id_rsa'',
                   deployDir = ''/opt/apps''\<rparr>"
  let ?p = "\<lparr>project_name = ''shop'', project_type = Flask, project_port = 5000,
             project_buildCmd = '''',
             project_startCmd = ''gunicorn -w 4 -b 0.0.0.0:5000 app:app'',
             project_language = Python\<rparr>"
  let ?after_server = "[Confirm False, Checked [''SECRET_KEY''], Text ''main'', Confirm False,
                        Choice ''cancel'']"
  let ?w1 = "?w\<lparr>script := [Text ''203.0.113.7'', Text ''root'', Text ''~/.ssh/id_rsa'',
                             Text ''/opt/apps'', Text ''__proto__''] @ ?after_server\<rparr>"
  let ?w2 = "?w1\<lparr>disk := saveServer ''__proto__'' ?profile (disk ?w1), script := ?after_server\<rparr>"
  let ?w3 = "?w2\<lparr>script := [Checked [''SECRET_KEY''], Text ''main'', Confirm False,
                              Choice ''cancel'']\<rparr>"
  let ?w4 = "?w2\<lparr>script := [Text ''main'', Confirm False, Choice ''cancel'']\<rparr>"
  let ?w5 = "?w2\<lparr>script := [Choice ''cancel'']\<rparr>"
  have name: "valid_name ''shop''" by code_simp
  have project: "collectProjectConfig ?detection ''shop'' ?w = Some (?p, ?w1)"
    using name
    by (simp add: collectProjectConfig_def prompt_list_def prompt_number_def prompt_input_def)
  have answers: "script ?w1 = [] @ [Text ''203.0.113.7'', Text ''root'', Text ''~/.ssh/id_rsa'',
                             Text ''/opt/apps'', Text ''__proto__''] @ ?after_server"
    by simp
  have none_saved: "[] = (if dom (servers (fst (loadGlobalConfig (disk ?w1)))) = {} then []
                     else [Choice ''__new__''])"
    by (simp add: loadGlobalConfig_def)
  have host: "not_blank ''203.0.113.7''" by code_simp
  have declined: "collectDomainConfig ?w2 =
      Some (\<lparr>enabled = False, domain_name = '''', https = False\<rparr>, ?w3)"
    by (simp add: collectDomainConfig_def prompt_confirm_def)
  have checked: "collectSecrets (envKeys ?detection) ?w3 = Some ([''SECRET_KEY''], ?w4)"
    by (simp add: collectSecrets_def prompt_checkbox_def)
  have branch: "collectBranchConfig ?w4 = Some (\<lparr>production = ''main'', staging = None\<rparr>, ?w5)"
    by (simp add: collectBranchConfig_def prompt_input_def prompt_confirm_def)
  have cancel: "script ?w5 = Choice ''cancel'' # []" by simp
  have "collectConfig ?detection ''shop'' ?w = Exit 0 (?w5\<lparr>script := []\<rparr>)"
    using new_profile_saved_before_cancel
      [OF project answers none_saved host refl refl declined checked branch cancel]
    by blast
  also have "?w5\<lparr>script := []\<rparr> = ?end"
    by (simp add: saveServer_def loadGlobalConfig_def saveGlobalConfig_def ensureDir_def
        assign_def)
  finally show ?thesis .
qed

end
